theory Spec2Isabelle
  imports Complex_Main "HOL-Library.Word" "HOL-Library.Log_Nat"
begin

section \<open>The document state shared by the page scripts\<close>

text \<open>
  The scripts of the portfolio page (\<^verbatim>\<open>script_new.js\<close> and \<^verbatim>\<open>script_topnav_backup.js\<close>)
  are event handlers over the browser's document. The part of the document they read and
  write is modelled as a record: the class list and the attributes of every element, the
  inline \<^verbatim>\<open>overflow\<close> style of the body, and the focused element
  (\<^verbatim>\<open>document.activeElement\<close>, \<open>None\<close> for \<^verbatim>\<open>null\<close>). Every handler takes the state and
  returns the new one. Elements are identified by numbers; class and attribute names are
  strings.
\<close>

type_synonym elem = nat

record dom =
  classList :: "elem \<Rightarrow> string set"
  attributes :: "elem \<Rightarrow> string \<Rightarrow> string option"
  body_overflow :: string
  activeElement :: "elem option"

definition classList_contains :: "elem \<Rightarrow> string \<Rightarrow> 'a dom_scheme \<Rightarrow> bool" where
  "classList_contains e c s = (c \<in> classList s e)"

definition classList_add :: "elem \<Rightarrow> string \<Rightarrow> 'a dom_scheme \<Rightarrow> 'a dom_scheme" where
  "classList_add e c s = s\<lparr>classList := (classList s)(e := insert c (classList s e))\<rparr>"

definition classList_remove :: "elem \<Rightarrow> string \<Rightarrow> 'a dom_scheme \<Rightarrow> 'a dom_scheme" where
  "classList_remove e c s = s\<lparr>classList := (classList s)(e := classList s e - {c})\<rparr>"

definition classList_toggle :: "elem \<Rightarrow> string \<Rightarrow> 'a dom_scheme \<Rightarrow> 'a dom_scheme" where
  "classList_toggle e c s =
     (if classList_contains e c s then classList_remove e c s else classList_add e c s)"

definition getAttribute :: "elem \<Rightarrow> string \<Rightarrow> 'a dom_scheme \<Rightarrow> string option" where
  "getAttribute e k s = attributes s e k"

definition setAttribute :: "elem \<Rightarrow> string \<Rightarrow> string \<Rightarrow> 'a dom_scheme \<Rightarrow> 'a dom_scheme" where
  "setAttribute e k v s = s\<lparr>attributes := (attributes s)(e := (attributes s e)(k \<mapsto> v))\<rparr>"

definition set_overflow :: "string \<Rightarrow> 'a dom_scheme \<Rightarrow> 'a dom_scheme" where
  "set_overflow v s = s\<lparr>body_overflow := v\<rparr>"

text \<open>\<^verbatim>\<open>el.focus()\<close> makes the element the active one; \<^verbatim>\<open>el?.focus()\<close> does nothing when the
  element is missing.\<close>

definition focus :: "elem \<Rightarrow> 'a dom_scheme \<Rightarrow> 'a dom_scheme" where
  "focus e s = s\<lparr>activeElement := Some e\<rparr>"

definition focus_opt :: "elem option \<Rightarrow> 'a dom_scheme \<Rightarrow> 'a dom_scheme" where
  "focus_opt eo s = (case eo of None \<Rightarrow> s | Some e \<Rightarrow> focus e s)"

text \<open>\<^verbatim>\<open>a || b\<close> on a string that may be \<^verbatim>\<open>null\<close>: the empty string is falsy too.\<close>

definition or_default :: "string option \<Rightarrow> string \<Rightarrow> string" where
  "or_default v d = (case v of None \<Rightarrow> d | Some x \<Rightarrow> if x = [] then d else x)"


section \<open>Theme persistence (script\_topnav\_backup.js)\<close>

text \<open>The page state of the theme controller adds the local storage of the origin, a map
  from keys to strings that survives a reload.\<close>

record theme_page = dom +
  localStorage :: "string \<Rightarrow> string option"

definition documentElement :: elem where
  "documentElement = 0"

definition THEME_KEY :: string where
  "THEME_KEY = ''portfolio-theme''"

text \<open>\<^verbatim>\<open>localStorage.getItem(THEME_KEY) || 'dark'\<close>, the read of the persisted preference.\<close>

definition savedTheme :: "theme_page \<Rightarrow> string" where
  "savedTheme s = or_default (localStorage s THEME_KEY) ''dark''"

definition initThemePersistence :: "theme_page \<Rightarrow> theme_page" where
  "initThemePersistence s = setAttribute documentElement ''data-theme'' (savedTheme s) s"

definition getCurrentTheme :: "theme_page \<Rightarrow> string" where
  "getCurrentTheme s = or_default (getAttribute documentElement ''data-theme'' s) ''dark''"

definition setTheme :: "string \<Rightarrow> theme_page \<Rightarrow> theme_page" where
  "setTheme theme s =
     (let s1 = setAttribute documentElement ''data-theme'' theme s
      in s1\<lparr>localStorage := (localStorage s1)(''portfolio-theme'' \<mapsto> theme)\<rparr>)"

text \<open>A reload gives a fresh document \<open>fresh\<close> (whatever the markup says) and keeps the
  storage; the script then runs \<open>initThemePersistence\<close>.\<close>

definition reload :: "theme_page \<Rightarrow> theme_page \<Rightarrow> theme_page" where
  "reload fresh s = initThemePersistence (fresh\<lparr>localStorage := localStorage s\<rparr>)"

section \<open>The dialog controller (script\_topnav\_backup.js)\<close>

text \<open>
  What the controller reads from the page's markup, which the scripts never change:
  \<open>getElementById\<close>, the close button of a panel (\<^verbatim>\<open>modal.querySelector('.modal-close')\<close>), the
  focusable descendants of a panel in document order
  (\<^verbatim>\<open>element.querySelectorAll(focusableSelectors)\<close>), and the chain of ancestors of an
  element, the element first, along which a keyboard event bubbles.
\<close>

record markup =
  getElementById :: "string \<Rightarrow> elem option"
  modal_close :: "elem \<Rightarrow> elem option"
  focusableElements :: "elem \<Rightarrow> elem list"
  ancestors :: "elem \<Rightarrow> elem list"

text \<open>
  A \<^verbatim>\<open>handleFocusTrap\<close> closure holds the \<^verbatim>\<open>firstFocusable\<close> and \<^verbatim>\<open>lastFocusable\<close> that
  \<^verbatim>\<open>trapFocus\<close> computed (\<open>None\<close> for \<^verbatim>\<open>undefined\<close>, when the panel has no focusable
  descendant). The controller's globals are \<^verbatim>\<open>activeModal\<close> and \<^verbatim>\<open>lastFocusedElement\<close>; the
  state also holds the pending \<^verbatim>\<open>setTimeout\<close> callbacks of \<^verbatim>\<open>openModal\<close> (each focuses the
  close button of its panel) and the \<^verbatim>\<open>keydown\<close> listeners added to each element.
\<close>

type_synonym trap = "elem option \<times> elem option"

record modal_page = dom +
  activeModal :: "elem option"
  lastFocusedElement :: "elem option"
  timeouts :: "elem list"
  keydownListeners :: "elem \<Rightarrow> trap list"

record key_event =
  key :: string
  shiftKey :: bool

definition firstFocusable :: "elem list \<Rightarrow> elem option" where
  "firstFocusable fs = (case fs of [] \<Rightarrow> None | x # _ \<Rightarrow> Some x)"

definition lastFocusable :: "elem list \<Rightarrow> elem option" where
  "lastFocusable fs = (if fs = [] then None else Some (last fs))"

text \<open>
  \<^verbatim>\<open>trapFocus\<close>: the \<^verbatim>\<open>removeEventListener\<close> call names the \<^verbatim>\<open>handleFocusTrap\<close> of this very
  call, a function object that was never added, so it removes nothing; the new closure is
  added after the listeners of earlier calls.
\<close>

definition trapFocus :: "markup \<Rightarrow> elem \<Rightarrow> modal_page \<Rightarrow> modal_page" where
  "trapFocus d element s =
     (let fs = focusableElements d element;
          handleFocusTrap = (firstFocusable fs, lastFocusable fs)
      in s\<lparr>keydownListeners :=
            (keydownListeners s)(element := keydownListeners s element @ [handleFocusTrap])\<rparr>)"

definition openModal :: "markup \<Rightarrow> elem option \<Rightarrow> modal_page \<Rightarrow> modal_page" where
  "openModal d modal s =
     (case modal of
        None \<Rightarrow> s
      | Some m \<Rightarrow>
          (let s1 = s\<lparr>lastFocusedElement := activeElement s\<rparr>;
               s2 = classList_add m ''active'' s1;
               s3 = setAttribute m ''aria-hidden'' ''false'' s2;
               s4 = set_overflow ''hidden'' s3;
               s5 = s4\<lparr>activeModal := Some m\<rparr>;
               s6 = s5\<lparr>timeouts := timeouts s5 @ [m]\<rparr>
           in trapFocus d m s6))"

definition openModalById :: "markup \<Rightarrow> string \<Rightarrow> modal_page \<Rightarrow> modal_page" where
  "openModalById d modalId s =
     (case getElementById d modalId of None \<Rightarrow> s | Some m \<Rightarrow> openModal d (Some m) s)"

definition closeModal :: "elem option \<Rightarrow> modal_page \<Rightarrow> modal_page" where
  "closeModal modal s =
     (case modal of
        None \<Rightarrow> s
      | Some m \<Rightarrow>
          (let s1 = classList_remove m ''active'' s;
               s2 = setAttribute m ''aria-hidden'' ''true'' s1;
               s3 = set_overflow [] s2;
               s4 = s3\<lparr>activeModal := None\<rparr>
           in case lastFocusedElement s4 of
                None \<Rightarrow> s4
              | Some e \<Rightarrow> (focus e s4)\<lparr>lastFocusedElement := None\<rparr>))"

definition closeCurrentModal :: "modal_page \<Rightarrow> modal_page" where
  "closeCurrentModal s =
     (case activeModal s of None \<Rightarrow> s | Some m \<Rightarrow> closeModal (Some m) s)"

text \<open>The callback that \<^verbatim>\<open>openModal\<close> schedules: \<^verbatim>\<open>closeButton?.focus()\<close>.\<close>

definition timeout_fires :: "markup \<Rightarrow> modal_page \<Rightarrow> modal_page" where
  "timeout_fires d s =
     (case timeouts s of
        [] \<Rightarrow> s
      | m # rest \<Rightarrow> focus_opt (modal_close d m) (s\<lparr>timeouts := rest\<rparr>))"

text \<open>\<^verbatim>\<open>document.activeElement === firstFocusable\<close>: \<^verbatim>\<open>null\<close> and \<^verbatim>\<open>undefined\<close> are not
  strictly equal, so the test fails when either side is missing.\<close>

definition strict_eq :: "elem option \<Rightarrow> elem option \<Rightarrow> bool" where
  "strict_eq a b = (case a of None \<Rightarrow> False | Some x \<Rightarrow> (case b of None \<Rightarrow> False | Some y \<Rightarrow> x = y))"

text \<open>A listener takes and returns the state together with the event's
  \<^verbatim>\<open>defaultPrevented\<close> flag.\<close>

definition handleFocusTrap :: "trap \<Rightarrow> key_event \<Rightarrow> modal_page \<times> bool \<Rightarrow> modal_page \<times> bool" where
  "handleFocusTrap h e sp =
     (let s = fst sp; prevented = snd sp; first = fst h; lst = snd h
      in if key e \<noteq> ''Tab'' then (s, prevented)
         else if shiftKey e then
           (if strict_eq (activeElement s) first then (focus_opt lst s, True) else (s, prevented))
         else
           (if strict_eq (activeElement s) lst then (focus_opt first s, True) else (s, prevented)))"

text \<open>The \<^verbatim>\<open>keydown\<close> listener that \<^verbatim>\<open>initProjectModals\<close> puts on the document.\<close>

definition escape_listener :: "key_event \<Rightarrow> modal_page \<Rightarrow> modal_page" where
  "escape_listener e s =
     (if key e = ''Escape'' \<and> activeModal s \<noteq> None then closeCurrentModal s else s)"

text \<open>
  The browser's part in a key press, not in the scripts: when no listener prevented the
  default action of a Tab, focus moves to the next (with Shift, the previous) element of
  the browser's sequential focus order, given here as two functions.
\<close>

record browser =
  tab_next :: "elem option \<Rightarrow> elem option"
  tab_prev :: "elem option \<Rightarrow> elem option"

text \<open>
  A key press goes to the focused element and bubbles along its ancestors, running the
  \<^verbatim>\<open>keydown\<close> listeners of each in the order they were added, then the document's listener;
  then the browser acts unless prevented.
\<close>

definition keydown :: "markup \<Rightarrow> browser \<Rightarrow> key_event \<Rightarrow> modal_page \<Rightarrow> modal_page" where
  "keydown d b e s =
     (let path = (case activeElement s of None \<Rightarrow> [] | Some t \<Rightarrow> ancestors d t);
          listeners = concat (map (keydownListeners s) path);
          sp = foldl (\<lambda>acc h. handleFocusTrap h e acc) (s, False) listeners;
          s1 = escape_listener e (fst sp)
      in if key e = ''Tab'' \<and> \<not> snd sp
         then s1\<lparr>activeElement :=
                 (if shiftKey e then tab_prev b else tab_next b) (activeElement s1)\<rparr>
         else s1)"

datatype event = TimeoutFires | KeyDown key_event | OpenModal "elem option" | CloseCurrentModal

fun step :: "markup \<Rightarrow> browser \<Rightarrow> event \<Rightarrow> modal_page \<Rightarrow> modal_page" where
  "step d b TimeoutFires s = timeout_fires d s"
| "step d b (KeyDown e) s = keydown d b e s"
| "step d b (OpenModal m) s = openModal d m s"
| "step d b CloseCurrentModal s = closeCurrentModal s"

definition run :: "markup \<Rightarrow> browser \<Rightarrow> event list \<Rightarrow> modal_page \<Rightarrow> modal_page" where
  "run d b evs s = foldl (\<lambda>acc ev. step d b ev acc) s evs"









section \<open>The menu controllers\<close>

text \<open>
  \<^verbatim>\<open>initMobileNav\<close> of \<^verbatim>\<open>script_topnav_backup.js\<close> works on the elements \<^verbatim>\<open>.hamburger\<close> and
  \<^verbatim>\<open>.nav-menu\<close>; the open state of the menu is the class \<^verbatim>\<open>active\<close> of the menu, the glyph of
  the control follows the class \<^verbatim>\<open>active\<close> of the hamburger, and \<^verbatim>\<open>aria-expanded\<close> is an
  attribute of the hamburger. Each of its three listeners is a function on the document.
\<close>

record nav_elems =
  hamburger :: elem
  navMenu :: elem

definition hamburger_click :: "nav_elems \<Rightarrow> dom \<Rightarrow> dom" where
  "hamburger_click n s =
     (let isOpen = classList_contains (navMenu n) ''active'' s;
          s1 = classList_toggle (navMenu n) ''active'' s;
          s2 = classList_toggle (hamburger n) ''active'' s1;
          s3 = setAttribute (hamburger n) ''aria-expanded'' (if isOpen then ''false'' else ''true'') s2
      in set_overflow (if isOpen then [] else ''hidden'') s3)"

definition close_menu :: "nav_elems \<Rightarrow> dom \<Rightarrow> dom" where
  "close_menu n s =
     (let s1 = classList_remove (navMenu n) ''active'' s;
          s2 = classList_remove (hamburger n) ''active'' s1;
          s3 = setAttribute (hamburger n) ''aria-expanded'' ''false'' s2
      in set_overflow [] s3)"

definition navLink_click :: "nav_elems \<Rightarrow> dom \<Rightarrow> dom" where
  "navLink_click n s = close_menu n s"

text \<open>The document's listener; the two flags are \<^verbatim>\<open>hamburger.contains(e.target)\<close> and
  \<^verbatim>\<open>navMenu.contains(e.target)\<close>.\<close>

definition document_click :: "nav_elems \<Rightarrow> bool \<Rightarrow> bool \<Rightarrow> dom \<Rightarrow> dom" where
  "document_click n in_hamburger in_menu s =
     (if \<not> in_hamburger \<and> \<not> in_menu then close_menu n s else s)"

datatype nav_event = HamburgerClick | NavLinkClick | DocumentClick bool bool

fun nav_step :: "nav_elems \<Rightarrow> nav_event \<Rightarrow> dom \<Rightarrow> dom" where
  "nav_step n HamburgerClick s = hamburger_click n s"
| "nav_step n NavLinkClick s = navLink_click n s"
| "nav_step n (DocumentClick h m) s = document_click n h m s"

definition nav_run :: "nav_elems \<Rightarrow> nav_event list \<Rightarrow> dom \<Rightarrow> dom" where
  "nav_run n evs s = foldl (\<lambda>acc ev. nav_step n ev acc) s evs"

text \<open>A menu toggle, a navigation-link click, or a click outside the menu and its control.\<close>

fun toggles_or_closes :: "nav_event \<Rightarrow> bool" where
  "toggles_or_closes (DocumentClick h m) = (\<not> h \<and> \<not> m)"
| "toggles_or_closes _ = True"

definition menu_open :: "nav_elems \<Rightarrow> dom \<Rightarrow> bool" where
  "menu_open n s = classList_contains (navMenu n) ''active'' s"

definition classes_agree :: "nav_elems \<Rightarrow> dom \<Rightarrow> bool" where
  "classes_agree n s \<longleftrightarrow>
     (classList_contains (hamburger n) ''active'' s \<longleftrightarrow> menu_open n s)"

definition menu_consistent :: "nav_elems \<Rightarrow> dom \<Rightarrow> bool" where
  "menu_consistent n s \<longleftrightarrow>
     classes_agree n s \<and>
     getAttribute (hamburger n) ''aria-expanded'' s = Some (if menu_open n s then ''true'' else ''false'')"

text \<open>
  The menu of \<^verbatim>\<open>script_new.js\<close> is the sidebar; its control \<^verbatim>\<open>.mobile-menu-toggle\<close> holds an
  icon whose glyph is the class \<^verbatim>\<open>fa-times\<close> (close) or \<^verbatim>\<open>fa-bars\<close>. The script keeps the
  last window width in the global \<^verbatim>\<open>windowWidth\<close>.
\<close>

record sidebar_elems =
  sidebar :: elem
  mobileMenuToggle :: elem
  icon :: elem
  navItems :: "elem list"

record sidebar_page = dom +
  windowWidth :: int

definition show_bars :: "sidebar_elems \<Rightarrow> sidebar_page \<Rightarrow> sidebar_page" where
  "show_bars m s = classList_add (icon m) ''fa-bars'' (classList_remove (icon m) ''fa-times'' s)"

definition show_times :: "sidebar_elems \<Rightarrow> sidebar_page \<Rightarrow> sidebar_page" where
  "show_times m s = classList_add (icon m) ''fa-times'' (classList_remove (icon m) ''fa-bars'' s)"

definition mobileMenuToggle_click :: "sidebar_elems \<Rightarrow> sidebar_page \<Rightarrow> sidebar_page" where
  "mobileMenuToggle_click m s =
     (let s1 = classList_toggle (sidebar m) ''active'' s
      in if classList_contains (sidebar m) ''active'' s1 then show_times m s1 else show_bars m s1)"

text \<open>The document's click listener; the flags are \<^verbatim>\<open>sidebar.contains(e.target)\<close> and
  \<^verbatim>\<open>mobileMenuToggle.contains(e.target)\<close>.\<close>

definition outside_click :: "sidebar_elems \<Rightarrow> int \<Rightarrow> bool \<Rightarrow> bool \<Rightarrow> sidebar_page \<Rightarrow> sidebar_page" where
  "outside_click m innerWidth in_sidebar in_toggle s =
     (if innerWidth \<le> 992 then
        (if \<not> in_sidebar \<and> \<not> in_toggle \<and> classList_contains (sidebar m) ''active'' s
         then show_bars m (classList_remove (sidebar m) ''active'' s)
         else s)
      else s)"

text \<open>
  The click listener of a \<^verbatim>\<open>.nav-item\<close>, \<open>this\<close> being the item; \<open>targetSection\<close> is what
  \<^verbatim>\<open>document.querySelector(href)\<close> found. The smooth scroll it starts is the browser's.
\<close>

definition navItem_click ::
  "sidebar_elems \<Rightarrow> elem \<Rightarrow> elem option \<Rightarrow> int \<Rightarrow> sidebar_page \<Rightarrow> sidebar_page" where
  "navItem_click m this targetSection innerWidth s =
     (case targetSection of
        None \<Rightarrow> s
      | Some _ \<Rightarrow>
          (let s1 = (if innerWidth \<le> 992 \<and> classList_contains (sidebar m) ''active'' s
                     then show_bars m (classList_remove (sidebar m) ''active'' s)
                     else s);
               s2 = foldl (\<lambda>acc item. classList_remove item ''active'' acc) s1 (navItems m)
           in classList_add this ''active'' s2))"

definition window_resize :: "sidebar_elems \<Rightarrow> int \<Rightarrow> sidebar_page \<Rightarrow> sidebar_page" where
  "window_resize m currentWidth s =
     (let s1 = (if windowWidth s \<le> 992 \<and> currentWidth > 992
                then show_bars m (classList_remove (sidebar m) ''active'' s)
                else s)
      in s1\<lparr>windowWidth := currentWidth\<rparr>)"

datatype sidebar_event =
    ToggleClick
  | OutsideClick int bool bool
  | NavItemClick elem "elem option" int
  | Resize int

text \<open>Only the elements of \<^verbatim>\<open>.nav-item\<close> carry the nav-item listener.\<close>

fun sidebar_step :: "sidebar_elems \<Rightarrow> sidebar_event \<Rightarrow> sidebar_page \<Rightarrow> sidebar_page" where
  "sidebar_step m ToggleClick s = mobileMenuToggle_click m s"
| "sidebar_step m (OutsideClick w a b) s = outside_click m w a b s"
| "sidebar_step m (NavItemClick this t w) s =
     (if this \<in> set (navItems m) then navItem_click m this t w s else s)"
| "sidebar_step m (Resize w) s = window_resize m w s"

definition sidebar_run :: "sidebar_elems \<Rightarrow> sidebar_event list \<Rightarrow> sidebar_page \<Rightarrow> sidebar_page" where
  "sidebar_run m evs s = foldl (\<lambda>acc ev. sidebar_step m ev acc) s evs"

definition icon_consistent :: "sidebar_elems \<Rightarrow> sidebar_page \<Rightarrow> bool" where
  "icon_consistent m s \<longleftrightarrow>
     (classList_contains (icon m) ''fa-times'' s \<longleftrightarrow> classList_contains (sidebar m) ''active'' s) \<and>
     (classList_contains (icon m) ''fa-bars'' s \<longleftrightarrow> \<not> classList_contains (sidebar m) ''active'' s)"


section \<open>Scroll-driven navigation highlighting\<close>

text \<open>
  Lengths and scroll positions are JavaScript numbers: IEEE 754 doubles. A finite double
  is a real number, and the comparisons of two doubles are those of the reals; what
  differs is the arithmetic, whose exact result is rounded to the nearest double, a tie
  going to the even significand. \<open>to_double\<close> is that rounding, with 53 significant bits
  and the fixed spacing of the subnormal numbers below the exponent -1022; the overflow
  to infinity from the exponent 1024 on is outside the model, page coordinates being far
  below it.
\<close>

definition pow2 :: "int \<Rightarrow> real" where
  "pow2 e = (if e \<ge> 0 then 2 ^ nat e else 1 / 2 ^ nat (- e))"

text \<open>The exponent \<open>e\<close> of a positive number \<open>a\<close>: \<open>pow2 e \<le> a < pow2 (e + 1)\<close>.\<close>

definition binary_exponent :: "real \<Rightarrow> int" where
  "binary_exponent a =
     (if a \<ge> 1 then bitlen \<lfloor>a\<rfloor> - 1
      else (let j = bitlen \<lfloor>1 / a\<rfloor> - 1 in if a = pow2 (- j) then - j else - j - 1))"

definition round_half_even :: "real \<Rightarrow> int" where
  "round_half_even x =
     (let f = \<lfloor>x\<rfloor>; d = x - of_int f
      in if d < 1 / 2 then f else if d > 1 / 2 then f + 1 else if even f then f else f + 1)"

definition to_double :: "real \<Rightarrow> real" where
  "to_double x =
     (if x = 0 then 0
      else (let e = max (binary_exponent \<bar>x\<bar>) (- 1022); ulp = pow2 (e - 52)
            in of_int (round_half_even (x / ulp)) * ulp))"

text \<open>The operators \<^verbatim>\<open>+\<close>, \<^verbatim>\<open>-\<close> and \<^verbatim>\<open>/\<close> on numbers (the divisor of the scripts is the
  constant 3).\<close>

definition double_add :: "real \<Rightarrow> real \<Rightarrow> real" where
  "double_add a b = to_double (a + b)"

definition double_sub :: "real \<Rightarrow> real \<Rightarrow> real" where
  "double_sub a b = to_double (a - b)"

definition double_divide :: "real \<Rightarrow> real \<Rightarrow> real" where
  "double_divide a b = to_double (a / b)"

text \<open>
  A content section as the scripts read it: \<^verbatim>\<open>offsetTop\<close>, \<^verbatim>\<open>offsetHeight\<close> and
  \<^verbatim>\<open>getAttribute('id')\<close> (\<open>None\<close> for \<^verbatim>\<open>null\<close>, an element without the attribute).
\<close>

record section_box =
  offsetTop :: real
  offsetHeight :: real
  section_id :: "string option"

text \<open>A value that may be \<^verbatim>\<open>null\<close>, converted to a string as a template literal or a
  string method does.\<close>

definition to_string :: "string option \<Rightarrow> string" where
  "to_string v = (case v of None \<Rightarrow> ''null'' | Some x \<Rightarrow> x)"

subsection \<open>script\_new.js\<close>

text \<open>\<^verbatim>\<open>window.scrollY + window.innerHeight / 3\<close>\<close>

definition scrollPosition :: "real \<Rightarrow> real \<Rightarrow> real" where
  "scrollPosition scrollY innerHeight = double_add scrollY (double_divide innerHeight 3)"

text \<open>\<^verbatim>\<open>scrollPosition >= sectionTop && scrollPosition < sectionTop + sectionHeight\<close>\<close>

definition contains_point :: "section_box \<Rightarrow> real \<Rightarrow> bool" where
  "contains_point sec pos \<longleftrightarrow>
     pos \<ge> offsetTop sec \<and> pos < double_add (offsetTop sec) (offsetHeight sec)"

text \<open>The first \<^verbatim>\<open>forEach\<close> of \<^verbatim>\<open>updateActiveNavOnScroll\<close>, from \<^verbatim>\<open>currentSection = ''\<close>.\<close>

definition currentSection :: "section_box list \<Rightarrow> real \<Rightarrow> real \<Rightarrow> string option" where
  "currentSection sections scrollY innerHeight =
     foldl (\<lambda>cur sec. if contains_point sec (scrollPosition scrollY innerHeight)
                       then section_id sec else cur)
       (Some []) sections"

text \<open>The body of the second \<^verbatim>\<open>forEach\<close>, for one item.\<close>

definition mark_item :: "string \<Rightarrow> elem \<Rightarrow> 'a dom_scheme \<Rightarrow> 'a dom_scheme" where
  "mark_item target item s =
     (let s1 = classList_remove item ''active'' s;
          href = getAttribute item ''href'' s1
      in if href = Some target then classList_add item ''active'' s1 else s1)"

definition updateActiveNavOnScroll ::
  "section_box list \<Rightarrow> elem list \<Rightarrow> real \<Rightarrow> real \<Rightarrow> 'a dom_scheme \<Rightarrow> 'a dom_scheme" where
  "updateActiveNavOnScroll sections items scrollY innerHeight s =
     (let cur = currentSection sections scrollY innerHeight
      in foldl (\<lambda>acc item. mark_item (''#'' @ to_string cur) item acc) s items)"

subsection \<open>script\_topnav\_backup.js\<close>

text \<open>\<^verbatim>\<open>href.includes(current)\<close>: the second string occurs somewhere in the first.\<close>

fun starts_with :: "string \<Rightarrow> string \<Rightarrow> bool" where
  "starts_with s [] = True"
| "starts_with [] (c # cs) = False"
| "starts_with (x # xs) (c # cs) = (x = c \<and> starts_with xs cs)"

fun string_includes :: "string \<Rightarrow> string \<Rightarrow> bool" where
  "string_includes [] t = (t = [])"
| "string_includes (x # xs) t = (starts_with (x # xs) t \<or> string_includes xs t)"

definition current_topnav :: "section_box list \<Rightarrow> real \<Rightarrow> real \<Rightarrow> string option" where
  "current_topnav sections navbarHeight scrollY =
     foldl (\<lambda>cur sec. if scrollY \<ge> double_sub (double_sub (offsetTop sec) navbarHeight) 100
                       then section_id sec else cur)
       (Some []) sections"

definition mark_link :: "string option \<Rightarrow> elem \<Rightarrow> 'a dom_scheme \<Rightarrow> 'a dom_scheme" where
  "mark_link current link s =
     (let s1 = classList_remove link ''active'' s
      in case getAttribute link ''href'' s1 of
           None \<Rightarrow> s1
         | Some href \<Rightarrow>
             if href \<noteq> [] \<and> string_includes href (to_string current)
             then classList_add link ''active'' s1 else s1)"

definition updateActiveNav ::
  "section_box list \<Rightarrow> elem list \<Rightarrow> real \<Rightarrow> real \<Rightarrow> 'a dom_scheme \<Rightarrow> 'a dom_scheme" where
  "updateActiveNav sections navLinks navbarHeight scrollY s =
     (let current = current_topnav sections navbarHeight scrollY
      in foldl (\<lambda>acc link. mark_link current link acc) s navLinks)"

text \<open>The navigation entries that carry the marker.\<close>

definition active_entries :: "elem list \<Rightarrow> 'a dom_scheme \<Rightarrow> elem list" where
  "active_entries entries s = filter (\<lambda>i. classList_contains i ''active'' s) entries"


section \<open>Reveal animations\<close>

text \<open>
  An \<^verbatim>\<open>IntersectionObserver\<close> holds the set of elements it observes; the browser calls its
  callback with entries, each naming a target and whether it intersects the viewport
  beyond the threshold. The page state adds the observed set to the document.
\<close>

record entry =
  target :: elem
  isIntersecting :: bool

record reveal_page = dom +
  observed :: "elem set"

definition observe :: "elem \<Rightarrow> reveal_page \<Rightarrow> reveal_page" where
  "observe e s = s\<lparr>observed := insert e (observed s)\<rparr>"

definition unobserve :: "elem \<Rightarrow> reveal_page \<Rightarrow> reveal_page" where
  "unobserve e s = s\<lparr>observed := observed s - {e}\<rparr>"

text \<open>The body of both observers' callbacks for one entry, \<open>c\<close> being the class that shows
  the revealed state.\<close>

definition reveal_entry :: "string \<Rightarrow> entry \<Rightarrow> reveal_page \<Rightarrow> reveal_page" where
  "reveal_entry c en s =
     (if isIntersecting en then unobserve (target en) (classList_add (target en) c s) else s)"

text \<open>The callback of \<^verbatim>\<open>fadeInObserver\<close> in \<^verbatim>\<open>script_new.js\<close>.\<close>

definition fadeInObserver :: "entry list \<Rightarrow> reveal_page \<Rightarrow> reveal_page" where
  "fadeInObserver entries s = foldl (\<lambda>acc en. reveal_entry ''fade-in-up'' en acc) s entries"

text \<open>The callback of the observer that \<^verbatim>\<open>initRevealAnimations\<close> creates in
  \<^verbatim>\<open>script_topnav_backup.js\<close>.\<close>

definition revealObserver :: "entry list \<Rightarrow> reveal_page \<Rightarrow> reveal_page" where
  "revealObserver entries s = foldl (\<lambda>acc en. reveal_entry ''revealed'' en acc) s entries"

text \<open>What happens on a page after load: the observer's callback runs, or the debounced
  scroll handler recomputes the active entry at a scroll position and viewport height.\<close>

datatype reveal_event = Intersection "entry list" | ScrollRecompute real real

fun new_reveal_step ::
  "section_box list \<Rightarrow> elem list \<Rightarrow> reveal_event \<Rightarrow> reveal_page \<Rightarrow> reveal_page" where
  "new_reveal_step secs items (Intersection es) s = fadeInObserver es s"
| "new_reveal_step secs items (ScrollRecompute y h) s = updateActiveNavOnScroll secs items y h s"

fun topnav_reveal_step ::
  "section_box list \<Rightarrow> elem list \<Rightarrow> real \<Rightarrow> reveal_event \<Rightarrow> reveal_page \<Rightarrow> reveal_page" where
  "topnav_reveal_step secs links nb (Intersection es) s = revealObserver es s"
| "topnav_reveal_step secs links nb (ScrollRecompute y h) s = updateActiveNav secs links nb y s"

definition new_reveal_run ::
  "section_box list \<Rightarrow> elem list \<Rightarrow> reveal_event list \<Rightarrow> reveal_page \<Rightarrow> reveal_page" where
  "new_reveal_run secs items evs s = foldl (\<lambda>acc ev. new_reveal_step secs items ev acc) s evs"

definition topnav_reveal_run ::
  "section_box list \<Rightarrow> elem list \<Rightarrow> real \<Rightarrow> reveal_event list \<Rightarrow> reveal_page \<Rightarrow> reveal_page" where
  "topnav_reveal_run secs links nb evs s =
     foldl (\<lambda>acc ev. topnav_reveal_step secs links nb ev acc) s evs"

text \<open>An element is revealed under a class and no longer watched.\<close>

definition revealed_and_unwatched :: "string \<Rightarrow> elem \<Rightarrow> reveal_page \<Rightarrow> bool" where
  "revealed_and_unwatched c e s \<longleftrightarrow> classList_contains e c s \<and> e \<notin> observed s"


section \<open>JavaScript strings and their library functions\<close>

text \<open>
  The values a user types are JavaScript strings: sequences of 16-bit UTF-16 code units.
  \<open>js\<close> embeds a Latin-1 literal.
\<close>

type_synonym code_unit = "16 word"
type_synonym jsstring = "code_unit list"

definition js :: "string \<Rightarrow> jsstring" where
  "js s = map of_char s"

datatype js_error = TypeError | URIError

text \<open>White space and line terminators, what \<^verbatim>\<open>trim\<close> strips and what \<^verbatim>\<open>\s\<close> matches.\<close>

definition is_space :: "code_unit \<Rightarrow> bool" where
  "is_space u \<longleftrightarrow>
     u \<in> {0x9, 0xA, 0xB, 0xC, 0xD, 0x20, 0xA0, 0x1680, 0x2028, 0x2029, 0x202F, 0x205F,
          0x3000, 0xFEFF} \<or> (0x2000 \<le> u \<and> u \<le> 0x200A)"

definition trim :: "jsstring \<Rightarrow> jsstring" where
  "trim s = rev (dropWhile is_space (rev (dropWhile is_space s)))"

subsection \<open>The regular expressions the scripts use\<close>

text \<open>
  A pattern anchored at both ends whose parts are character classes, each taken once or
  one or more times. \<open>regex_test\<close> says whether the whole string matches.
\<close>

datatype atom = Once "code_unit \<Rightarrow> bool" | Many "code_unit \<Rightarrow> bool"

fun regex_test :: "atom list \<Rightarrow> jsstring \<Rightarrow> bool" where
  "regex_test [] s = (s = [])"
| "regex_test (Once p # r) [] = False"
| "regex_test (Once p # r) (c # cs) = (p c \<and> regex_test r cs)"
| "regex_test (Many p # r) [] = False"
| "regex_test (Many p # r) (c # cs) = (p c \<and> (regex_test r cs \<or> regex_test (Many p # r) cs))"

definition not_space_or_at :: "code_unit \<Rightarrow> bool" where
  "not_space_or_at u \<longleftrightarrow> \<not> is_space u \<and> u \<noteq> 0x40"

text \<open>\<^verbatim>\<open>/^[^\s@]+@[^\s@]+\.[^\s@]+$/\<close>\<close>

definition emailPattern :: "atom list" where
  "emailPattern = [Many not_space_or_at, Once (\<lambda>u. u = 0x40), Many not_space_or_at,
     Once (\<lambda>u. u = 0x2E), Many not_space_or_at]"

subsection \<open>encodeURIComponent\<close>

definition uriUnreserved :: "code_unit \<Rightarrow> bool" where
  "uriUnreserved u \<longleftrightarrow>
     (0x41 \<le> u \<and> u \<le> 0x5A) \<or> (0x61 \<le> u \<and> u \<le> 0x7A) \<or> (0x30 \<le> u \<and> u \<le> 0x39) \<or>
     u \<in> {0x2D, 0x5F, 0x2E, 0x21, 0x7E, 0x2A, 0x27, 0x28, 0x29}"

definition is_high_surrogate :: "code_unit \<Rightarrow> bool" where
  "is_high_surrogate u \<longleftrightarrow> 0xD800 \<le> u \<and> u \<le> 0xDBFF"

definition is_low_surrogate :: "code_unit \<Rightarrow> bool" where
  "is_low_surrogate u \<longleftrightarrow> 0xDC00 \<le> u \<and> u \<le> 0xDFFF"

definition code_point :: "code_unit \<Rightarrow> code_unit \<Rightarrow> nat" where
  "code_point hi lo = 0x10000 + (unat hi - 0xD800) * 0x400 + (unat lo - 0xDC00)"

definition utf8 :: "nat \<Rightarrow> nat list" where
  "utf8 n =
     (if n < 0x80 then [n]
      else if n < 0x800 then [0xC0 + n div 0x40, 0x80 + n mod 0x40]
      else if n < 0x10000 then [0xE0 + n div 0x1000, 0x80 + n div 0x40 mod 0x40, 0x80 + n mod 0x40]
      else [0xF0 + n div 0x40000, 0x80 + n div 0x1000 mod 0x40, 0x80 + n div 0x40 mod 0x40,
            0x80 + n mod 0x40])"

definition hex_digit :: "nat \<Rightarrow> code_unit" where
  "hex_digit d = (if d < 10 then of_nat (0x30 + d) else of_nat (0x41 + (d - 10)))"

definition percent :: "nat list \<Rightarrow> jsstring" where
  "percent octets = concat (map (\<lambda>b. [0x25, hex_digit (b div 16), hex_digit (b mod 16)]) octets)"

definition then_append :: "jsstring \<Rightarrow> js_error + jsstring \<Rightarrow> js_error + jsstring" where
  "then_append p r = (case r of Inl e \<Rightarrow> Inl e | Inr x \<Rightarrow> Inr (p @ x))"

text \<open>
  The standard's \<^verbatim>\<open>Encode\<close> with the unreserved set of \<^verbatim>\<open>encodeURIComponent\<close>: an
  unreserved code unit is copied; any other code point is written as the percent-escaped
  octets of its UTF-8 form; a surrogate without its partner throws \<^verbatim>\<open>URIError\<close>.
\<close>

fun encodeURIComponent :: "jsstring \<Rightarrow> js_error + jsstring" where
  "encodeURIComponent [] = Inr []"
| "encodeURIComponent (c # cs) =
     (if uriUnreserved c then then_append [c] (encodeURIComponent cs)
      else if is_high_surrogate c then
        (case cs of
           [] \<Rightarrow> Inl URIError
         | d # ds \<Rightarrow>
             if is_low_surrogate d
             then then_append (percent (utf8 (code_point c d))) (encodeURIComponent ds)
             else Inl URIError)
      else if is_low_surrogate c then Inl URIError
      else then_append (percent (utf8 (unat c))) (encodeURIComponent cs))"


text \<open>A string with no surrogate code unit outside a high-low pair.\<close>

fun well_formed :: "jsstring \<Rightarrow> bool" where
  "well_formed [] = True"
| "well_formed (c # cs) =
     (if is_high_surrogate c then
        (case cs of [] \<Rightarrow> False | d # ds \<Rightarrow> is_low_surrogate d \<and> well_formed ds)
      else \<not> is_low_surrogate c \<and> well_formed cs)"


section \<open>The contact form\<close>

text \<open>
  The page state of the form controllers: the current value of the three controls
  (\<open>None\<close> when \<^verbatim>\<open>document.getElementById\<close> finds no such element), the default values that
  the markup gives them and \<^verbatim>\<open>reset()\<close> restores, the \<^verbatim>\<open>defaultPrevented\<close> flag of the submit
  event, the address last assigned to \<^verbatim>\<open>window.location.href\<close>, the message of the
  browser's \<^verbatim>\<open>alert\<close> dialog, and the notice of \<^verbatim>\<open>showAlert\<close>: its type and text, with a
  serial number that tells the notices apart, and the notices whose removal is pending
  on a timer.
\<close>

record contact_page =
  name_input :: "jsstring option"
  email_input :: "jsstring option"
  message_input :: "jsstring option"
  name_default :: jsstring
  email_default :: jsstring
  message_default :: jsstring
  defaultPrevented :: bool
  location_href :: "jsstring option"
  window_alert :: "string option"
  custom_alert :: "(string \<times> string \<times> nat) option"
  alerts_created :: nat
  removal_timers :: "nat list"

text \<open>\<^verbatim>\<open>!value\<close> on a string that may be \<^verbatim>\<open>undefined\<close>.\<close>

definition falsy :: "jsstring option \<Rightarrow> bool" where
  "falsy v = (case v of None \<Rightarrow> True | Some x \<Rightarrow> x = [])"

definition preventDefault :: "contact_page \<Rightarrow> contact_page" where
  "preventDefault s = s\<lparr>defaultPrevented := True\<rparr>"

subsection \<open>script\_topnav\_backup.js\<close>

text \<open>\<^verbatim>\<open>showAlert\<close>: the notice replaces an existing one, and a timer is set that removes
  this notice after five seconds.\<close>

definition showAlert :: "string \<Rightarrow> string \<Rightarrow> contact_page \<Rightarrow> contact_page" where
  "showAlert message type s =
     s\<lparr>custom_alert := Some (type, message, alerts_created s),
       alerts_created := Suc (alerts_created s),
       removal_timers := removal_timers s @ [alerts_created s]\<rparr>"

text \<open>The timer of the oldest pending notice fires: \<^verbatim>\<open>alert.remove()\<close> takes that notice out
  of the page if it is still there.\<close>

definition removal_timer_fires :: "contact_page \<Rightarrow> contact_page" where
  "removal_timer_fires s =
     (case removal_timers s of
        [] \<Rightarrow> s
      | k # rest \<Rightarrow>
          (let s1 = s\<lparr>removal_timers := rest\<rparr>
           in case custom_alert s1 of
                None \<Rightarrow> s1
              | Some (t, m, serial) \<Rightarrow> if serial = k then s1\<lparr>custom_alert := None\<rparr> else s1))"

text \<open>\<^verbatim>\<open>contactForm.reset()\<close> gives every control of the form its default value.\<close>

definition reset :: "contact_page \<Rightarrow> contact_page" where
  "reset s =
     s\<lparr>name_input := map_option (\<lambda>_. name_default s) (name_input s),
       email_input := map_option (\<lambda>_. email_default s) (email_input s),
       message_input := map_option (\<lambda>_. message_default s) (message_input s)\<rparr>"

text \<open>The validation of the submit listener in \<^verbatim>\<open>initContactForm\<close>, giving \<^verbatim>\<open>isValid\<close> and
  \<^verbatim>\<open>errorMessage\<close>; the three checks run in order and a later failure overwrites the
  message.\<close>

definition validate ::
  "jsstring option \<Rightarrow> jsstring option \<Rightarrow> jsstring option \<Rightarrow> bool \<times> string" where
  "validate name email message =
     (let v0 = (True, []);
          v1 = (if falsy name \<or> length (the name) < 2
                then (False, ''Please enter a valid name (at least 2 characters).'') else v0);
          v2 = (if falsy email \<or> \<not> regex_test emailPattern (the email)
                then (False, ''Please enter a valid email address.'') else v1);
          v3 = (if falsy message \<or> length (the message) < 10
                then (False, ''Please enter a message (at least 10 characters).'') else v2)
      in v3)"

definition mailto_prefix :: jsstring where
  "mailto_prefix = js ''mailto:mueezmejbah284@gmail.com?subject=''"

definition initContactForm_submit :: "contact_page \<Rightarrow> js_error + contact_page" where
  "initContactForm_submit s0 =
     (let s = preventDefault s0;
          name = map_option trim (name_input s);
          email = map_option trim (email_input s);
          message = map_option trim (message_input s);
          v = validate name email message
      in if \<not> fst v then Inr (showAlert (snd v) ''error'' s)
         else
           (case encodeURIComponent (js ''Portfolio Contact from '' @ the name) of
              Inl err \<Rightarrow> Inl err
            | Inr subject \<Rightarrow>
               (case encodeURIComponent
                       (js ''Name: '' @ the name @ js ''\<newline>Email: '' @ the email
                          @ js ''\<newline>\<newline>Message:\<newline>'' @ the message) of
                  Inl err \<Rightarrow> Inl err
                | Inr body \<Rightarrow>
                    (let mailtoLink = mailto_prefix @ subject @ js ''&body='' @ body;
                         s1 = s\<lparr>location_href := Some mailtoLink\<rparr>;
                         s2 = showAlert
                                ''Thank you for your message! Your email client should open shortly.''
                                ''success'' s1
                     in Inr (reset s2)))))"

subsection \<open>script\_new.js\<close>

text \<open>The submit listener of \<^verbatim>\<open>script_new.js\<close> reads \<^verbatim>\<open>.value\<close> of each control without a
  check, which throws when the control is missing. When it returns without preventing
  the default, the browser submits the form.\<close>

definition contactForm_submit :: "contact_page \<Rightarrow> js_error + contact_page" where
  "contactForm_submit s =
     (case (name_input s, email_input s, message_input s) of
        (Some n, Some e, Some m) \<Rightarrow>
          (let name = trim n; email = trim e; message = trim m
           in if name = [] \<or> email = [] \<or> message = []
              then Inr ((preventDefault s)\<lparr>window_alert :=
                          Some ''Please fill in all fields before submitting.''\<rparr>)
              else if \<not> regex_test emailPattern email
              then Inr ((preventDefault s)\<lparr>window_alert :=
                          Some ''Please enter a valid email address.''\<rparr>)
              else Inr s)
      | _ \<Rightarrow> Inl TypeError)"

text \<open>A field is blank: the control is missing, empty, or holds white space only.\<close>

definition blank :: "jsstring option \<Rightarrow> bool" where
  "blank v = falsy (map_option trim v)"

text \<open>The trimmed email has the shape the pattern describes.\<close>

definition email_shaped :: "jsstring option \<Rightarrow> bool" where
  "email_shaped v = (case v of None \<Rightarrow> False | Some e \<Rightarrow> regex_test emailPattern (trim e))"

text \<open>The three controls keep the values the user entered.\<close>

definition same_inputs :: "contact_page \<Rightarrow> contact_page \<Rightarrow> bool" where
  "same_inputs s s' \<longleftrightarrow>
     name_input s' = name_input s \<and> email_input s' = email_input s \<and>
     message_input s' = message_input s"

text \<open>A handler's result is a rejection: it returned normally with the default action
  prevented, the address and the three inputs as they were, and an error shown, by the
  browser's dialog or by a notice of type \<^verbatim>\<open>error\<close>.\<close>

definition rejected_by_dialog :: "contact_page \<Rightarrow> js_error + contact_page \<Rightarrow> bool" where
  "rejected_by_dialog s r =
     (case r of
        Inl _ \<Rightarrow> False
      | Inr s' \<Rightarrow> defaultPrevented s' \<and> location_href s' = location_href s \<and>
                 same_inputs s s' \<and> window_alert s' \<noteq> None)"

definition rejected_by_notice :: "contact_page \<Rightarrow> js_error + contact_page \<Rightarrow> bool" where
  "rejected_by_notice s r =
     (case r of
        Inl _ \<Rightarrow> False
      | Inr s' \<Rightarrow> defaultPrevented s' \<and> location_href s' = location_href s \<and>
                 same_inputs s s' \<and>
                 (case custom_alert s' of None \<Rightarrow> False | Some (t, m, k) \<Rightarrow> t = ''error''))"

definition trimmed_length :: "jsstring option \<Rightarrow> nat" where
  "trimmed_length v = (case v of None \<Rightarrow> 0 | Some x \<Rightarrow> length (trim x))"


section \<open>The certificate dialog\<close>

text \<open>
  The certificate table is an object literal, and \<^verbatim>\<open>table[key]\<close> is a property read: it
  finds the object's own properties and then those it inherits from \<^verbatim>\<open>Object.prototype\<close>.
  A value read this way is \<^verbatim>\<open>undefined\<close>, a string, a function or an object.
\<close>

datatype jsval = Undefined | Str string | Fn string | Obj

definition truthy :: "jsval \<Rightarrow> bool" where
  "truthy v = (case v of Undefined \<Rightarrow> False | Str x \<Rightarrow> x \<noteq> [] | Fn _ \<Rightarrow> True | Obj \<Rightarrow> True)"

text \<open>The properties every object literal inherits: the methods of \<^verbatim>\<open>Object.prototype\<close> and
  the accessor \<^verbatim>\<open>__proto__\<close>, which gives the prototype object.\<close>

definition object_prototype :: "(string \<times> jsval) list" where
  "object_prototype =
     [(''constructor'', Fn ''Object''), (''hasOwnProperty'', Fn ''hasOwnProperty''),
      (''isPrototypeOf'', Fn ''isPrototypeOf''),
      (''propertyIsEnumerable'', Fn ''propertyIsEnumerable''),
      (''toLocaleString'', Fn ''toLocaleString''), (''toString'', Fn ''toString''),
      (''valueOf'', Fn ''valueOf''), (''__defineGetter__'', Fn ''__defineGetter__''),
      (''__defineSetter__'', Fn ''__defineSetter__''),
      (''__lookupGetter__'', Fn ''__lookupGetter__''),
      (''__lookupSetter__'', Fn ''__lookupSetter__''), (''__proto__'', Obj)]"

definition get_property :: "(string \<times> string) list \<Rightarrow> string option \<Rightarrow> jsval" where
  "get_property own k =
     (case map_of own (to_string k) of
        Some v \<Rightarrow> Str v
      | None \<Rightarrow> (case map_of object_prototype (to_string k) of Some v \<Rightarrow> v | None \<Rightarrow> Undefined))"

definition certificateImages :: "(string \<times> string) list" where
  "certificateImages =
     [(''matlab-certificate'', ''Edge Course.jpg''),
      (''research-certificate'', ''Certificate of Appreciation.png'')]"

text \<open>The page state adds the \<^verbatim>\<open>src\<close> and \<^verbatim>\<open>alt\<close> of the image \<^verbatim>\<open>#certificate-image\<close>; \<open>src\<close>
  holds the value assigned to it.\<close>

record certificate_page = dom +
  image_src :: jsval
  image_alt :: string

text \<open>\<^verbatim>\<open>replace('-', ' ')\<close> replaces the first hyphen only; \<^verbatim>\<open>toUpperCase\<close> is given for the
  letters \<^verbatim>\<open>a\<close> to \<^verbatim>\<open>z\<close> and leaves every other character of an identifier as it is.\<close>

fun replace_first :: "char \<Rightarrow> char \<Rightarrow> string \<Rightarrow> string" where
  "replace_first a b [] = []"
| "replace_first a b (c # cs) = (if c = a then b # cs else c # replace_first a b cs)"

definition upper_case :: "char \<Rightarrow> char" where
  "upper_case c =
     (case map_of (zip ''abcdefghijklmnopqrstuvwxyz'' ''ABCDEFGHIJKLMNOPQRSTUVWXYZ'') c of
        None \<Rightarrow> c
      | Some u \<Rightarrow> u)"

definition toUpperCase :: "string \<Rightarrow> string" where
  "toUpperCase s = map upper_case s"

subsection \<open>script\_new.js\<close>

definition openCertificateModal ::
  "elem \<Rightarrow> string option \<Rightarrow> certificate_page \<Rightarrow> js_error + certificate_page" where
  "openCertificateModal modal certificateId s =
     (let imagePath = get_property certificateImages certificateId
      in if truthy imagePath then
           (case certificateId of
              None \<Rightarrow> Inl TypeError
            | Some cid \<Rightarrow>
                (let s1 = s\<lparr>image_src := imagePath\<rparr>;
                     s2 = s1\<lparr>image_alt := toUpperCase (replace_first CHR ''-'' CHR '' '' cid)\<rparr>;
                     s3 = classList_add modal ''active'' s2
                 in Inr (set_overflow ''hidden'' s3)))
         else Inr s)"

definition closeCertificateModal :: "elem \<Rightarrow> certificate_page \<Rightarrow> certificate_page" where
  "closeCertificateModal modal s = set_overflow [] (classList_remove modal ''active'' s)"

subsection \<open>script\_topnav\_backup.js\<close>

text \<open>The listeners that \<^verbatim>\<open>initCertificateModal\<close> adds, with its own copy of the table.\<close>

definition certificates :: "(string \<times> string) list" where
  "certificates =
     [(''matlab-certificate'', ''Edge Course.jpg''),
      (''research-certificate'', ''Certificate of Appreciation.png'')]"

definition viewCertificate_click ::
  "elem \<Rightarrow> string option \<Rightarrow> certificate_page \<Rightarrow> certificate_page" where
  "viewCertificate_click certificateModal certificateId s =
     (let certificateSrc = get_property certificates certificateId
      in if truthy certificateSrc then
           (let s1 = s\<lparr>image_src := certificateSrc\<rparr>;
                s2 = s1\<lparr>image_alt := to_string certificateId @ '' certificate''\<rparr>;
                s3 = classList_add certificateModal ''active'' s2;
                s4 = setAttribute certificateModal ''aria-hidden'' ''false'' s3
            in set_overflow ''hidden'' s4)
         else s)"

definition closeCertificate_click :: "elem \<Rightarrow> certificate_page \<Rightarrow> certificate_page" where
  "closeCertificate_click certificateModal s =
     (let s1 = classList_remove certificateModal ''active'' s;
          s2 = setAttribute certificateModal ''aria-hidden'' ''true'' s1;
          s3 = set_overflow [] s2
      in s3\<lparr>image_src := Str []\<rparr>)"


section \<open>Concrete pages\<close>

definition empty_dom :: dom where
  "empty_dom = \<lparr>classList = (\<lambda>_. {}), attributes = (\<lambda>_. Map.empty), body_overflow = [],
     activeElement = None\<rparr>"

definition first_visit :: theme_page where
  "first_visit = dom.extend empty_dom \<lparr>localStorage = Map.empty\<rparr>"










text \<open>A top-navigation page before any click, and a sidebar page whose control shows
  the bars glyph and is marked up as not expanded.\<close>

definition demo_nav :: nav_elems where
  "demo_nav = \<lparr>hamburger = 1, navMenu = 2\<rparr>"

definition demo_sidebar :: sidebar_elems where
  "demo_sidebar = \<lparr>sidebar = 3, mobileMenuToggle = 5, icon = 4, navItems = [7, 8]\<rparr>"

definition demo_sidebar_page :: sidebar_page where
  "demo_sidebar_page = \<lparr>classList = (\<lambda>_. {})(4 := {''fas'', ''fa-bars''}),
     attributes = (\<lambda>_. Map.empty)(5 := [''aria-expanded'' \<mapsto> ''false'']),
     body_overflow = [], activeElement = None, windowWidth = 800\<rparr>"


text \<open>Two sections and three navigation entries: a top link to \<^verbatim>\<open>#\<close> and links to the
  sections.\<close>

definition about_section :: section_box where
  "about_section = \<lparr>offsetTop = 500, offsetHeight = 400, section_id = Some ''about''\<rparr>"

definition home_section :: section_box where
  "home_section = \<lparr>offsetTop = 0, offsetHeight = 500, section_id = Some ''home''\<rparr>"

definition nav_page :: dom where
  "nav_page = \<lparr>classList = (\<lambda>_. {}),
     attributes = (\<lambda>_. Map.empty)(1 := [''href'' \<mapsto> ''#''], 2 := [''href'' \<mapsto> ''#about''],
       3 := [''href'' \<mapsto> ''#home'']),
     body_overflow = [], activeElement = None\<rparr>"


text \<open>The same page with two watched cards, 30 and 31, not yet revealed.\<close>

definition cards_page :: reveal_page where
  "cards_page = dom.extend nav_page \<lparr>observed = {30, 31}\<rparr>"

definition card_30_enters :: "entry list" where
  "card_30_enters = [\<lparr>target = 30, isIntersecting = True\<rparr>, \<lparr>target = 31, isIntersecting = False\<rparr>]"

definition scroll_back :: "reveal_event list" where
  "scroll_back = [ScrollRecompute 400 600, Intersection [\<lparr>target = 30, isIntersecting = False\<rparr>],
     ScrollRecompute 0 600]"


text \<open>The form as the specification's example fills it, and three variations of it.\<close>

definition jane_page :: contact_page where
  "jane_page = \<lparr>name_input = Some (js ''Jane''), email_input = Some (js ''jane@example.com''),
     message_input = Some (js ''Hello there, loved your work!''),
     name_default = [], email_default = [], message_default = [],
     defaultPrevented = False, location_href = None, window_alert = None,
     custom_alert = None, alerts_created = 0, removal_timers = []\<rparr>"

definition bad_email_page :: contact_page where
  "bad_email_page = jane_page\<lparr>email_input := Some (js ''a@b'')\<rparr>"

definition short_name_page :: contact_page where
  "short_name_page = jane_page\<lparr>name_input := Some (js ''J'')\<rparr>"

definition half_emoji_page :: contact_page where
  "half_emoji_page = jane_page\<lparr>name_input := Some (js ''Jane '' @ [0xD83D])\<rparr>"


text \<open>A page with the certificate dialog closed.\<close>

definition certificates_closed :: certificate_page where
  "certificates_closed = dom.extend empty_dom \<lparr>image_src = Str [], image_alt = []\<rparr>"


section \<open>Properties of the theme controller\<close>

text \<open>
  C7. The theme read returns what \<open>setTheme\<close> persisted last and \<open>dark\<close> when nothing was
  persisted: for a theme \<open>dark\<close> or \<open>light\<close>, \<open>setTheme\<close> followed by a fresh read of the
  storage (a reload into any fresh document) yields that theme, both as the saved theme
  and as the document's theme; with the storage key absent a fresh read yields \<open>dark\<close>;
  and \<open>setTheme\<close> is idempotent.
\<close>

theorem theme_roundtrip:
  "(theme \<in> {''dark'', ''light''} \<longrightarrow>
      savedTheme (setTheme theme s) = theme \<and>
      getCurrentTheme (setTheme theme s) = theme \<and>
      getCurrentTheme (reload fresh (setTheme theme s)) = theme) \<and>
   (localStorage s THEME_KEY = None \<longrightarrow>
      savedTheme s = ''dark'' \<and> getCurrentTheme (reload fresh s) = ''dark'') \<and>
   setTheme theme (setTheme theme s) = setTheme theme s"
  by (auto simp: savedTheme_def getCurrentTheme_def setTheme_def reload_def
      initThemePersistence_def setAttribute_def getAttribute_def or_default_def THEME_KEY_def
      Let_def)

theorem theme_roundtrip_witness:
  "''light'' \<in> {''dark'', ''light''} \<and>
   savedTheme (setTheme ''light'' first_visit) = ''light'' \<and>
   getCurrentTheme (reload first_visit (setTheme ''light'' first_visit)) = ''light'' \<and>
   localStorage first_visit THEME_KEY = None \<and>
   savedTheme first_visit = ''dark'' \<and>
   getCurrentTheme (reload first_visit first_visit) = ''dark''"
proof -
  have key: "localStorage first_visit THEME_KEY = None"
    by (simp add: first_visit_def dom.defs theme_page.defs)
  show ?thesis
    using theme_roundtrip [of "''light''" first_visit first_visit] key by simp
qed


section \<open>Properties of the dialog controller\<close>

lemmas dom_ops = classList_add_def classList_remove_def classList_toggle_def
  classList_contains_def setAttribute_def getAttribute_def set_overflow_def focus_def
  focus_opt_def



















text \<open>Whatever was open before, \<^verbatim>\<open>openModal\<close> marks its panel, points \<^verbatim>\<open>activeModal\<close> to it
  and leaves the class list of every other element as it was.\<close>

lemma openModal_marks_panel:
  "''active'' \<in> classList (openModal d (Some m) s) m \<and>
   activeModal (openModal d (Some m) s) = Some m \<and>
   (\<forall>p. p \<noteq> m \<longrightarrow> classList (openModal d (Some m) s) p = classList s p)"
  by (auto simp: openModal_def trapFocus_def dom_ops Let_def)















text \<open>Every open adds one more closure over the ends of the panel's focusable
  descendants, after those of earlier opens.\<close>

lemma openModal_installs_trap:
  "keydownListeners (openModal d (Some m) s) m =
     keydownListeners s m @
       [(firstFocusable (focusableElements d m), lastFocusable (focusableElements d m))]"
  by (simp add: openModal_def trapFocus_def dom_ops Let_def)







section \<open>Properties of the menu controllers\<close>

lemmas menu_defs = nav_run_def hamburger_click_def navLink_click_def document_click_def
  close_menu_def menu_open_def classes_agree_def menu_consistent_def sidebar_run_def
  mobileMenuToggle_click_def outside_click_def navItem_click_def window_resize_def
  show_bars_def show_times_def icon_consistent_def demo_nav_def demo_sidebar_def
  demo_sidebar_page_def empty_dom_def

lemma nav_step_establishes:
  "hamburger n \<noteq> navMenu n \<Longrightarrow> classes_agree n s \<Longrightarrow> toggles_or_closes ev \<Longrightarrow>
   menu_consistent n (nav_step n ev s)"
  by (cases ev)
     (auto simp: menu_consistent_def classes_agree_def menu_open_def hamburger_click_def
       navLink_click_def document_click_def close_menu_def dom_ops Let_def)

lemma nav_step_preserves:
  "hamburger n \<noteq> navMenu n \<Longrightarrow> menu_consistent n s \<Longrightarrow> menu_consistent n (nav_step n ev s)"
  by (cases ev)
     (auto simp: menu_consistent_def classes_agree_def menu_open_def hamburger_click_def
       navLink_click_def document_click_def close_menu_def dom_ops Let_def)

lemma nav_run_preserves:
  "hamburger n \<noteq> navMenu n \<Longrightarrow> menu_consistent n s \<Longrightarrow> menu_consistent n (nav_run n evs s)"
  unfolding nav_run_def
  by (induction evs arbitrary: s) (simp_all add: nav_step_preserves)

lemma remove_active_items_frame:
  "classList (foldl (\<lambda>acc item. classList_remove item ''active'' acc) s items) e - {''active''}
     = classList s e - {''active''}"
  by (induction items arbitrary: s) (auto simp: classList_remove_def)

lemma remove_active_items_other:
  "e \<notin> set items \<Longrightarrow>
   classList (foldl (\<lambda>acc item. classList_remove item ''active'' acc) s items) e = classList s e"
  by (induction items arbitrary: s) (auto simp: classList_remove_def)

lemma toggle_establishes: "icon_consistent m (mobileMenuToggle_click m s)"
  by (auto simp: icon_consistent_def mobileMenuToggle_click_def show_bars_def show_times_def
      dom_ops Let_def)


lemma remove_active_items_class:
  "c \<noteq> ''active'' \<Longrightarrow>
   c \<in> classList (foldl (\<lambda>acc item. classList_remove item ''active'' acc) s items) e
     \<longleftrightarrow> c \<in> classList s e"
  using remove_active_items_frame [of s items e] by blast

lemma close_sidebar_consistent:
  "icon_consistent m (show_bars m (classList_remove (sidebar m) ''active'' s))"
  by (auto simp: icon_consistent_def show_bars_def dom_ops)

lemma navItem_click_preserves:
  assumes "sidebar m \<notin> set (navItems m)" "this \<in> set (navItems m)" "icon_consistent m s"
  shows "icon_consistent m (navItem_click m this t w s)"
proof (cases t)
  case None
  then show ?thesis using assms by (simp add: navItem_click_def)
next
  case (Some sec)
  define s1 where "s1 = (if w \<le> 992 \<and> classList_contains (sidebar m) ''active'' s
                     then show_bars m (classList_remove (sidebar m) ''active'' s) else s)"
  define s2 where "s2 = foldl (\<lambda>acc item. classList_remove item ''active'' acc) s1 (navItems m)"
  have c1: "icon_consistent m s1"
    using assms(3) by (simp add: s1_def close_sidebar_consistent)
  have side: "classList s2 (sidebar m) = classList s1 (sidebar m)"
    unfolding s2_def using assms(1) by (rule remove_active_items_other)
  have ic: "''fa-times'' \<in> classList s2 (icon m) \<longleftrightarrow> ''fa-times'' \<in> classList s1 (icon m)"
    "''fa-bars'' \<in> classList s2 (icon m) \<longleftrightarrow> ''fa-bars'' \<in> classList s1 (icon m)"
    unfolding s2_def by (simp_all add: remove_active_items_class)
  have ne: "this \<noteq> sidebar m" using assms(1,2) by auto
  have "navItem_click m this t w s = classList_add this ''active'' s2"
    using Some by (simp add: navItem_click_def s1_def s2_def Let_def)
  then show ?thesis
    using c1 side ic ne by (auto simp: icon_consistent_def classList_add_def classList_contains_def)
qed

lemma sidebar_step_preserves:
  assumes "sidebar m \<notin> set (navItems m)" "icon_consistent m s"
  shows "icon_consistent m (sidebar_step m ev s)"
proof (cases ev)
  case ToggleClick
  then show ?thesis by (simp add: toggle_establishes)
next
  case (OutsideClick w a b)
  then show ?thesis using assms(2) by (simp add: outside_click_def close_sidebar_consistent)
next
  case (NavItemClick this t w)
  then show ?thesis using assms by (simp add: navItem_click_preserves)
next
  case (Resize w)
  have "icon_consistent m (x\<lparr>windowWidth := w\<rparr>) = icon_consistent m x" for x
    by (simp add: icon_consistent_def classList_contains_def)
  then show ?thesis using Resize assms(2)
    by (simp add: window_resize_def close_sidebar_consistent Let_def)
qed

lemma sidebar_run_preserves:
  "sidebar m \<notin> set (navItems m) \<Longrightarrow> icon_consistent m s \<Longrightarrow> icon_consistent m (sidebar_run m evs s)"
  unfolding sidebar_run_def
  by (induction evs arbitrary: s) (simp_all add: sidebar_step_preserves)

lemma remove_active_items_attributes:
  "attributes (foldl (\<lambda>acc item. classList_remove item ''active'' acc) s items) = attributes s"
  by (induction items arbitrary: s) (simp_all add: classList_remove_def)

lemma class_op_attributes:
  "attributes (classList_add e c s) = attributes s"
  "attributes (classList_remove e c s) = attributes s"
  "attributes (classList_toggle e c s) = attributes s"
  by (simp_all add: classList_add_def classList_remove_def classList_toggle_def)

lemma show_glyph_attributes:
  "attributes (show_bars m s) = attributes s" "attributes (show_times m s) = attributes s"
  by (simp_all add: show_bars_def show_times_def class_op_attributes)

lemma navItem_click_attributes: "attributes (navItem_click m this t w s) = attributes s"
  by (cases t)
     (simp_all add: navItem_click_def Let_def remove_active_items_attributes
       show_glyph_attributes class_op_attributes)

lemma sidebar_step_attributes: "attributes (sidebar_step m ev s) = attributes s"
  by (cases ev)
     (simp_all add: mobileMenuToggle_click_def outside_click_def navItem_click_attributes
       window_resize_def show_glyph_attributes class_op_attributes Let_def)

lemma sidebar_run_attributes: "attributes (sidebar_run m evs s) = attributes s"
  unfolding sidebar_run_def
  by (induction evs arbitrary: s) (simp_all add: sidebar_step_attributes)

text \<open>
  C8, as the code has it. In \<^verbatim>\<open>script_topnav_backup.js\<close>, from a page where the hamburger
  and the menu agree on the class \<^verbatim>\<open>active\<close>, after a toggle, a navigation-link click or an
  outside click, and after any further clicks, the hamburger carries \<^verbatim>\<open>active\<close> exactly
  when the menu is open and \<^verbatim>\<open>aria-expanded\<close> is \<^verbatim>\<open>true\<close> exactly then. In \<^verbatim>\<open>script_new.js\<close>,
  after a toggle and any further toggles, outside clicks, nav-item clicks and resizes,
  the icon shows the close glyph exactly when the sidebar is open and the bars glyph
  exactly when it is not, and the same holds from any page where it held at the start;
  no listener of that script writes an attribute, \<^verbatim>\<open>aria-expanded\<close> included.
\<close>

theorem menu_state_consistent:
  "(hamburger n \<noteq> navMenu n \<and> classes_agree n s \<and> toggles_or_closes ev \<longrightarrow>
      menu_consistent n (nav_run n evs (nav_step n ev s))) \<and>
   (sidebar m \<notin> set (navItems m) \<longrightarrow>
      icon_consistent m (sidebar_run m evs' (mobileMenuToggle_click m t)) \<and>
      (icon_consistent m t \<longrightarrow> icon_consistent m (sidebar_run m evs' t))) \<and>
   attributes (sidebar_run m evs' t) = attributes t"
  by (simp add: nav_step_establishes nav_run_preserves toggle_establishes sidebar_run_preserves
      sidebar_run_attributes)


theorem menu_state_consistent_witness:
  "hamburger demo_nav \<noteq> navMenu demo_nav \<and> classes_agree demo_nav empty_dom \<and>
   getAttribute (hamburger demo_nav) ''aria-expanded'' empty_dom = None \<and>
   menu_consistent demo_nav
     (nav_run demo_nav [HamburgerClick, HamburgerClick] (nav_step demo_nav HamburgerClick empty_dom)) \<and>
   menu_open demo_nav
     (nav_run demo_nav [HamburgerClick, HamburgerClick] (nav_step demo_nav HamburgerClick empty_dom)) \<and>
   getAttribute (hamburger demo_nav) ''aria-expanded''
     (nav_run demo_nav [HamburgerClick, HamburgerClick] (nav_step demo_nav HamburgerClick empty_dom))
     = Some ''true'' \<and>
   sidebar demo_sidebar \<notin> set (navItems demo_sidebar) \<and>
   icon_consistent demo_sidebar demo_sidebar_page \<and>
   icon_consistent demo_sidebar
     (sidebar_run demo_sidebar [ToggleClick, OutsideClick 800 False False, ToggleClick] demo_sidebar_page) \<and>
   classList
     (sidebar_run demo_sidebar [ToggleClick, OutsideClick 800 False False, ToggleClick] demo_sidebar_page) 4
     = {''fas'', ''fa-times''} \<and>
   classList
     (sidebar_run demo_sidebar [ToggleClick, OutsideClick 800 False False, ToggleClick] demo_sidebar_page) 3
     = {''active''}"
proof -
  have nav: "hamburger demo_nav \<noteq> navMenu demo_nav" "classes_agree demo_nav empty_dom"
    "toggles_or_closes HamburgerClick"
    "getAttribute (hamburger demo_nav) ''aria-expanded'' empty_dom = None"
    by (simp_all add: menu_defs dom_ops)
  have opened: "menu_open demo_nav
     (nav_run demo_nav [HamburgerClick, HamburgerClick] (nav_step demo_nav HamburgerClick empty_dom))"
    by (simp add: menu_defs dom_ops Let_def)
  have side: "sidebar demo_sidebar \<notin> set (navItems demo_sidebar)"
    "icon_consistent demo_sidebar demo_sidebar_page"
    by (simp_all add: menu_defs dom_ops)
  have cls: "classList
     (sidebar_run demo_sidebar [ToggleClick, OutsideClick 800 False False, ToggleClick] demo_sidebar_page) 4
     = {''fas'', ''fa-times''}"
    "classList
     (sidebar_run demo_sidebar [ToggleClick, OutsideClick 800 False False, ToggleClick] demo_sidebar_page) 3
     = {''active''}"
    by (auto simp: menu_defs dom_ops Let_def)
  have aria: "getAttribute (hamburger demo_nav) ''aria-expanded'' s = Some ''true''"
    if "menu_consistent demo_nav s" "menu_open demo_nav s" for s
    using that by (simp add: menu_consistent_def)
  show ?thesis
    using menu_state_consistent [of demo_nav empty_dom HamburgerClick
        "[HamburgerClick, HamburgerClick]" demo_sidebar
        "[ToggleClick, OutsideClick 800 False False, ToggleClick]" demo_sidebar_page]
      nav opened side cls aria
    by simp
qed

text \<open>
  C8, as stated, fails in \<^verbatim>\<open>script_new.js\<close>: a toggle opens the sidebar and shows the close
  glyph, and the control's \<^verbatim>\<open>aria-expanded\<close> still says \<^verbatim>\<open>false\<close>.
\<close>

theorem sidebar_toggle_leaves_aria_expanded:
  "\<not> classList_contains (sidebar demo_sidebar) ''active'' demo_sidebar_page \<and>
   getAttribute (mobileMenuToggle demo_sidebar) ''aria-expanded'' demo_sidebar_page = Some ''false'' \<and>
   classList_contains (sidebar demo_sidebar) ''active''
     (mobileMenuToggle_click demo_sidebar demo_sidebar_page) \<and>
   classList_contains (icon demo_sidebar) ''fa-times''
     (mobileMenuToggle_click demo_sidebar demo_sidebar_page) \<and>
   getAttribute (mobileMenuToggle demo_sidebar) ''aria-expanded''
     (mobileMenuToggle_click demo_sidebar demo_sidebar_page) = Some ''false''"
  by (simp add: menu_defs dom_ops Let_def)



section \<open>Properties of the scroll-driven highlighting\<close>

lemmas scroll_defs = updateActiveNavOnScroll_def currentSection_def scrollPosition_def
  contains_point_def mark_item_def to_string_def active_entries_def updateActiveNav_def
  current_topnav_def mark_link_def about_section_def home_section_def nav_page_def

text \<open>The arithmetic of the examples below, evaluated with the rounding: every result is
  a double, and the last sum is rounded up to 500.\<close>

lemma double_values:
  "double_add 400 (double_divide 600 3) = 600"
  "double_add 0 (double_divide 600 3) = 200"
  "double_add 0 500 = 500"
  "double_add 500 400 = 900"
  "double_sub (double_sub 0 70) 100 = - 170"
  "double_sub (double_sub 500 70) 100 = 330"
  "double_add (5864062014805333 / 35184372088832) (double_divide 1000 3) = 500"
  by code_simp+

lemma currentSection_last:
  "currentSection secs y h =
     (case filter (\<lambda>sec. contains_point sec (scrollPosition y h)) secs of
        [] \<Rightarrow> Some []
      | x # xs \<Rightarrow> section_id (last (x # xs)))"
proof -
  have "foldl (\<lambda>cur sec. if P sec then section_id sec else cur) c secs =
        (if filter P secs = [] then c else section_id (last (filter P secs)))" for P c
    by (induction secs rule: rev_induct) auto
  then show ?thesis by (simp add: currentSection_def split: list.splits)
qed

lemma mark_item_attributes: "attributes (mark_item t i s) = attributes s"
  by (simp add: mark_item_def dom_ops Let_def)

lemma mark_items_attributes:
  "attributes (foldl (\<lambda>acc item. mark_item t item acc) s items) = attributes s"
  by (induction items arbitrary: s) (simp_all add: mark_item_attributes)

lemma mark_items_class:
  "c \<in> classList (foldl (\<lambda>acc item. mark_item t item acc) s items) e \<longleftrightarrow>
     (if c = ''active'' \<and> e \<in> set items then attributes s e ''href'' = Some t
      else c \<in> classList s e)"
proof (induction items arbitrary: s)
  case Nil
  show ?case by simp
next
  case (Cons i items)
  have a: "attributes (mark_item t i s) = attributes s" by (rule mark_item_attributes)
  have c: "c \<in> classList (mark_item t i s) e \<longleftrightarrow>
           (if c = ''active'' \<and> e = i then attributes s e ''href'' = Some t else c \<in> classList s e)"
    by (auto simp: mark_item_def dom_ops Let_def)
  show ?case using Cons.IH [of "mark_item t i s"] a c by auto
qed

lemma at_most_one_match:
  "distinct (map f xs) \<Longrightarrow> length (filter (\<lambda>x. f x = v) xs) \<le> 1"
proof (induction xs)
  case Nil
  show ?case by simp
next
  case (Cons x xs)
  show ?case
  proof (cases "f x = v")
    case True
    have "f x \<notin> f ` set xs" using Cons.prems by simp
    then have "\<forall>y\<in>set xs. f y \<noteq> v" using True by blast
    then have "filter (\<lambda>x. f x = v) xs = []" by (simp add: filter_empty_conv)
    then show ?thesis using True by simp
  next
    case False
    then show ?thesis using Cons by simp
  qed
qed



lemma current_topnav_last:
  "current_topnav secs nb y =
     (case filter (\<lambda>sec. y \<ge> double_sub (double_sub (offsetTop sec) nb) 100) secs of
        [] \<Rightarrow> Some []
      | x # xs \<Rightarrow> section_id (last (x # xs)))"
proof -
  have "foldl (\<lambda>cur sec. if P sec then section_id sec else cur) c secs =
        (if filter P secs = [] then c else section_id (last (filter P secs)))" for P c
    by (induction secs rule: rev_induct) auto
  then show ?thesis by (simp add: current_topnav_def split: list.splits)
qed

lemma mark_link_attributes: "attributes (mark_link cur l s) = attributes s"
  by (simp add: mark_link_def dom_ops Let_def split: option.splits)

lemma mark_links_class:
  "c \<in> classList (foldl (\<lambda>acc link. mark_link cur link acc) s links) e \<longleftrightarrow>
     (if c = ''active'' \<and> e \<in> set links
      then (\<exists>href. attributes s e ''href'' = Some href \<and> href \<noteq> [] \<and>
              string_includes href (to_string cur))
      else c \<in> classList s e)"
proof (induction links arbitrary: s)
  case Nil
  show ?case by simp
next
  case (Cons l links)
  have a: "attributes (mark_link cur l s) = attributes s" by (rule mark_link_attributes)
  have c: "c \<in> classList (mark_link cur l s) e \<longleftrightarrow>
           (if c = ''active'' \<and> e = l
            then (\<exists>href. attributes s e ''href'' = Some href \<and> href \<noteq> [] \<and>
                    string_includes href (to_string cur))
            else c \<in> classList s e)"
    by (auto simp: mark_link_def dom_ops Let_def split: option.splits)
  show ?case using Cons.IH [of "mark_link cur l s"] a c by auto
qed

text \<open>
  C2, as the code has it. The reference point is the double that the script computes as
  scroll position plus a third of the viewport height. After \<^verbatim>\<open>updateActiveNavOnScroll\<close>
  (\<^verbatim>\<open>script_new.js\<close>) an entry carries \<^verbatim>\<open>active\<close> exactly when its link target is \<^verbatim>\<open>#\<close>
  followed by the identifier of the last section whose extent, from its top to the double
  sum of top and height, contains the reference point, the empty identifier when no
  section contains it. So at most one entry is marked when the link targets are pairwise
  different, and none is marked when no section contains the point and no entry links to
  \<^verbatim>\<open>#\<close>. After \<^verbatim>\<open>updateActiveNav\<close> (\<^verbatim>\<open>script_topnav_backup.js\<close>), once the scroll position has
  reached the top of some section less the navbar height and 100, an entry is marked
  exactly when its non-empty link target contains the identifier of the last such
  section.
\<close>

theorem scroll_sync_marks_matching_entries:
  assumes "pos = double_add y (double_divide h 3)"
    and "hits = filter (\<lambda>sec. offsetTop sec \<le> pos \<and>
                   pos < double_add (offsetTop sec) (offsetHeight sec)) secs"
    and "cur = (if hits = [] then Some [] else section_id (last hits))"
    and "s' = updateActiveNavOnScroll secs items y h s"
    and "tops = filter (\<lambda>sec. double_sub (double_sub (offsetTop sec) nb) 100 \<le> y) secs"
    and "current = section_id (last tops)"
    and "t' = updateActiveNav secs links nb y t"
  shows "(\<forall>i\<in>set items. classList_contains i ''active'' s' \<longleftrightarrow>
            getAttribute i ''href'' s = Some (''#'' @ to_string cur)) \<and>
         (distinct (map (\<lambda>i. getAttribute i ''href'' s) items) \<longrightarrow>
            length (active_entries items s') \<le> 1) \<and>
         (hits = [] \<and> (\<forall>i\<in>set items. getAttribute i ''href'' s \<noteq> Some ''#'') \<longrightarrow>
            active_entries items s' = []) \<and>
         (tops \<noteq> [] \<longrightarrow>
            (\<forall>l\<in>set links. classList_contains l ''active'' t' \<longleftrightarrow>
               (\<exists>href. getAttribute l ''href'' t = Some href \<and> href \<noteq> [] \<and>
                  string_includes href (to_string current))))"
proof -
  have cur: "currentSection secs y h = cur"
    using assms(1,2,3)
    by (simp add: currentSection_last contains_point_def scrollPosition_def split: list.splits)
  have item: "classList_contains i ''active'' s' \<longleftrightarrow>
        getAttribute i ''href'' s = Some (''#'' @ to_string cur)" if "i \<in> set items" for i
    using that cur assms(4)
    by (simp add: updateActiveNavOnScroll_def Let_def mark_items_class classList_contains_def
        getAttribute_def)
  have filt: "active_entries items s' =
        filter (\<lambda>i. getAttribute i ''href'' s = Some (''#'' @ to_string cur)) items"
    unfolding active_entries_def using item by (intro filter_cong) auto
  have one: "length (active_entries items s') \<le> 1"
    if "distinct (map (\<lambda>i. getAttribute i ''href'' s) items)"
    using at_most_one_match [OF that] filt by simp
  have none: "active_entries items s' = []"
    if "hits = [] \<and> (\<forall>i\<in>set items. getAttribute i ''href'' s \<noteq> Some ''#'')"
    using that assms(3) filt by (simp add: to_string_def filter_empty_conv)
  have current: "current_topnav secs nb y = current" if "tops \<noteq> []"
    using that assms(5,6) by (simp add: current_topnav_last split: list.splits)
  have link: "classList_contains l ''active'' t' \<longleftrightarrow>
        (\<exists>href. getAttribute l ''href'' t = Some href \<and> href \<noteq> [] \<and>
               string_includes href (to_string current))" if "l \<in> set links" "tops \<noteq> []" for l
    using that current assms(7)
    by (simp add: updateActiveNav_def Let_def mark_links_class classList_contains_def
        getAttribute_def)
  show ?thesis using item one none link by blast
qed

theorem scroll_sync_marks_matching_entries_witness:
  "double_add 400 (double_divide 600 3) = 600 \<and>
   filter (\<lambda>sec. offsetTop sec \<le> 600 \<and> 600 < double_add (offsetTop sec) (offsetHeight sec))
     [home_section, about_section] = [about_section] \<and>
   distinct (map (\<lambda>i. getAttribute i ''href'' nav_page) [3, 2]) \<and>
   active_entries [3, 2] (updateActiveNavOnScroll [home_section, about_section] [3, 2] 400 600 nav_page)
     = [2] \<and>
   classList_contains 2 ''active''
     (updateActiveNavOnScroll [home_section, about_section] [3, 2] 400 600 nav_page) \<and>
   classList_contains 2 ''active''
     (updateActiveNav [home_section, about_section] [3, 2] 70 400 nav_page) \<and>
   double_add 0 (double_divide 600 3) = 200 \<and>
   filter (\<lambda>sec. offsetTop sec \<le> 200 \<and> 200 < double_add (offsetTop sec) (offsetHeight sec))
     [about_section] = [] \<and>
   active_entries [3, 2] (updateActiveNavOnScroll [about_section] [3, 2] 0 600 nav_page) = []"
proof -
  have pos: "600 = double_add 400 (double_divide 600 3)" "200 = double_add 0 (double_divide 600 3)"
    by (simp_all add: double_values)
  have hits: "[about_section] =
      filter (\<lambda>sec. offsetTop sec \<le> 600 \<and> 600 < double_add (offsetTop sec) (offsetHeight sec))
        [home_section, about_section]"
    by (simp add: about_section_def home_section_def double_values)
  have cur: "Some ''about'' =
      (if [about_section] = [] then Some [] else section_id (last [about_section]))"
    by (simp add: about_section_def)
  have tops: "[home_section, about_section] =
      filter (\<lambda>sec. double_sub (double_sub (offsetTop sec) 70) 100 \<le> 400)
        [home_section, about_section]"
    by (simp add: about_section_def home_section_def double_values)
  have current: "Some ''about'' = section_id (last [home_section, about_section])"
    by (simp add: about_section_def)
  have d: "distinct (map (\<lambda>i. getAttribute i ''href'' nav_page) [3, 2])"
    by (simp add: nav_page_def getAttribute_def)
  have href: "getAttribute 2 ''href'' nav_page = Some ''#about''"
    "getAttribute 3 ''href'' nav_page = Some ''#home''"
    "''#'' @ to_string (Some ''about'') = ''#about''"
    "string_includes ''#about'' (to_string (Some ''about''))"
    by (simp_all add: nav_page_def getAttribute_def to_string_def)
  have in_view: "classList_contains 2 ''active''
       (updateActiveNavOnScroll [home_section, about_section] [3, 2] 400 600 nav_page) \<and>
     \<not> classList_contains 3 ''active''
       (updateActiveNavOnScroll [home_section, about_section] [3, 2] 400 600 nav_page) \<and>
     classList_contains 2 ''active''
       (updateActiveNav [home_section, about_section] [3, 2] 70 400 nav_page)"
    using scroll_sync_marks_matching_entries [OF pos(1) hits cur refl tops current refl,
        of "[3, 2]" nav_page "[3, 2]" nav_page] href
    by simp
  then have act: "active_entries [3, 2]
      (updateActiveNavOnScroll [home_section, about_section] [3, 2] 400 600 nav_page) = [2]"
    by (simp add: active_entries_def)
  have none: "[] =
      filter (\<lambda>sec. offsetTop sec \<le> 200 \<and> 200 < double_add (offsetTop sec) (offsetHeight sec))
        [about_section]"
    by (simp add: about_section_def)
  have no_top_link: "\<forall>i\<in>set [3, 2]. getAttribute i ''href'' nav_page \<noteq> Some ''#''"
    by (simp add: nav_page_def getAttribute_def)
  have above: "active_entries [3, 2]
      (updateActiveNavOnScroll [about_section] [3, 2] 0 600 nav_page) = []"
    using scroll_sync_marks_matching_entries [where secs = "[about_section]" and y = 0
        and h = 600 and items = "[3, 2]" and s = nav_page and nb = 70 and links = "[]"
        and t = nav_page, OF pos(2) none refl refl refl refl refl] no_top_link
    by simp
  show ?thesis using pos hits d act in_view none above by simp
qed

text \<open>
  C2, as stated, fails: with the reference point, 200, above the only section, which
  starts at 500, the entry that links to \<^verbatim>\<open>#\<close> is marked although no section contains the
  point. At the same scroll position the backup script, with a navbar 70 high, has
  reached no section either and marks both entries of its menu at once, the empty
  identifier being contained in every link target.
\<close>

theorem no_section_in_view_yet_entry_active:
  "scrollPosition 0 600 = 200 \<and>
   \<not> contains_point about_section (scrollPosition 0 600) \<and>
   active_entries [1, 2] (updateActiveNavOnScroll [about_section] [1, 2] 0 600 nav_page) = [1] \<and>
   current_topnav [about_section] 70 0 = Some [] \<and>
   active_entries [3, 2] (updateActiveNav [about_section] [3, 2] 70 0 nav_page) = [3, 2]"
  by (simp add: scroll_defs double_values dom_ops Let_def)

text \<open>The rounding decides at a boundary: the scroll position just below 166 and two
  thirds with a viewport 1000 high gives the reference point 500 exactly, the exact sum
  being smaller, and the section that starts at 500 is the current one.\<close>

lemma rounded_sum_reaches_section_top:
  "scrollPosition (5864062014805333 / 35184372088832) 1000 = 500 \<and>
   (5864062014805333 / 35184372088832 :: real) + 1000 / 3 < 500 \<and>
   active_entries [1, 2]
     (updateActiveNavOnScroll [about_section] [1, 2] (5864062014805333 / 35184372088832) 1000
        nav_page) = [2]"
  by (simp add: scroll_defs double_values dom_ops Let_def)


section \<open>Properties of the reveal animations\<close>

lemma reveal_entry_keeps:
  "revealed_and_unwatched c e s \<Longrightarrow> revealed_and_unwatched c e (reveal_entry c' en s)"
  by (auto simp: revealed_and_unwatched_def reveal_entry_def unobserve_def dom_ops)

lemma callback_keeps:
  "revealed_and_unwatched c e s \<Longrightarrow>
   revealed_and_unwatched c e (foldl (\<lambda>acc en. reveal_entry c' en acc) s entries)"
  by (induction entries arbitrary: s) (simp_all add: reveal_entry_keeps)

lemma callback_reveals:
  "\<lparr>target = e, isIntersecting = True\<rparr> \<in> set entries \<Longrightarrow>
   revealed_and_unwatched c e (foldl (\<lambda>acc en. reveal_entry c en acc) s entries)"
proof (induction entries arbitrary: s)
  case Nil
  then show ?case by simp
next
  case (Cons en entries)
  show ?case
  proof (cases "en = \<lparr>target = e, isIntersecting = True\<rparr>")
    case True
    have "revealed_and_unwatched c e (reveal_entry c en s)"
      using True by (simp add: revealed_and_unwatched_def reveal_entry_def unobserve_def dom_ops)
    then show ?thesis using callback_keeps [of c e _ c entries] by simp
  next
    case False
    then have "\<lparr>target = e, isIntersecting = True\<rparr> \<in> set entries" using Cons.prems by auto
    then show ?thesis using Cons.IH by simp
  qed
qed

lemma mark_items_observed:
  "observed (foldl (\<lambda>acc item. mark_item t item acc) s items) = observed s"
  by (induction items arbitrary: s) (simp_all add: mark_item_def dom_ops Let_def)

lemma mark_links_observed:
  "observed (foldl (\<lambda>acc link. mark_link cur link acc) s links) = observed s"
  by (induction links arbitrary: s) (simp_all add: mark_link_def dom_ops Let_def split: option.splits)

lemma new_step_keeps:
  "c \<noteq> ''active'' \<Longrightarrow> revealed_and_unwatched c e s \<Longrightarrow>
   revealed_and_unwatched c e (new_reveal_step secs items ev s)"
proof (cases ev)
  case (Intersection es)
  assume "revealed_and_unwatched c e s"
  then show ?thesis using Intersection callback_keeps [of c e s "''fade-in-up''" es]
    by (simp add: fadeInObserver_def)
next
  case (ScrollRecompute y h)
  assume "c \<noteq> ''active''" "revealed_and_unwatched c e s"
  then show ?thesis using ScrollRecompute
    by (simp add: revealed_and_unwatched_def updateActiveNavOnScroll_def Let_def
        mark_items_class mark_items_observed classList_contains_def)
qed

lemma topnav_step_keeps:
  "c \<noteq> ''active'' \<Longrightarrow> revealed_and_unwatched c e s \<Longrightarrow>
   revealed_and_unwatched c e (topnav_reveal_step secs links nb ev s)"
proof (cases ev)
  case (Intersection es)
  assume "revealed_and_unwatched c e s"
  then show ?thesis using Intersection callback_keeps [of c e s "''revealed''" es]
    by (simp add: revealObserver_def)
next
  case (ScrollRecompute y h)
  assume "c \<noteq> ''active''" "revealed_and_unwatched c e s"
  then show ?thesis using ScrollRecompute
    by (simp add: revealed_and_unwatched_def updateActiveNav_def Let_def
        mark_links_class mark_links_observed classList_contains_def)
qed

lemma new_run_keeps:
  "c \<noteq> ''active'' \<Longrightarrow> revealed_and_unwatched c e s \<Longrightarrow>
   revealed_and_unwatched c e (new_reveal_run secs items evs s)"
  unfolding new_reveal_run_def
  by (induction evs arbitrary: s) (simp_all add: new_step_keeps)

lemma topnav_run_keeps:
  "c \<noteq> ''active'' \<Longrightarrow> revealed_and_unwatched c e s \<Longrightarrow>
   revealed_and_unwatched c e (topnav_reveal_run secs links nb evs s)"
  unfolding topnav_reveal_run_def
  by (induction evs arbitrary: s) (simp_all add: topnav_step_keeps)

text \<open>
  C9. When the observer's callback gets an intersecting entry for an element, the
  element carries the revealed class and leaves the observed set in that same callback,
  and after any later callbacks and scroll recomputations it still carries the class and
  is still not observed; in \<^verbatim>\<open>script_new.js\<close> with the class \<^verbatim>\<open>fade-in-up\<close>, in
  \<^verbatim>\<open>script_topnav_backup.js\<close> with the class \<^verbatim>\<open>revealed\<close>.
\<close>

theorem reveal_is_permanent:
  "\<lparr>target = e, isIntersecting = True\<rparr> \<in> set entries \<longrightarrow>
     revealed_and_unwatched ''fade-in-up'' e (fadeInObserver entries s) \<and>
     revealed_and_unwatched ''fade-in-up'' e
       (new_reveal_run secs items evs (fadeInObserver entries s)) \<and>
     revealed_and_unwatched ''revealed'' e (revealObserver entries s) \<and>
     revealed_and_unwatched ''revealed'' e
       (topnav_reveal_run secs items nb evs (revealObserver entries s))"
proof
  assume en: "\<lparr>target = e, isIntersecting = True\<rparr> \<in> set entries"
  have a: "revealed_and_unwatched ''fade-in-up'' e (fadeInObserver entries s)"
    unfolding fadeInObserver_def using en by (rule callback_reveals)
  have b: "revealed_and_unwatched ''revealed'' e (revealObserver entries s)"
    unfolding revealObserver_def using en by (rule callback_reveals)
  show "revealed_and_unwatched ''fade-in-up'' e (fadeInObserver entries s) \<and>
     revealed_and_unwatched ''fade-in-up'' e
       (new_reveal_run secs items evs (fadeInObserver entries s)) \<and>
     revealed_and_unwatched ''revealed'' e (revealObserver entries s) \<and>
     revealed_and_unwatched ''revealed'' e
       (topnav_reveal_run secs items nb evs (revealObserver entries s))"
    using a b new_run_keeps [of "''fade-in-up''" e _ secs items evs]
      topnav_run_keeps [of "''revealed''" e _ secs items nb evs]
    by simp
qed

theorem reveal_is_permanent_witness:
  "\<lparr>target = 30, isIntersecting = True\<rparr> \<in> set card_30_enters \<and>
   30 \<in> observed cards_page \<and> \<not> classList_contains 30 ''fade-in-up'' cards_page \<and>
   revealed_and_unwatched ''fade-in-up'' 30 (fadeInObserver card_30_enters cards_page) \<and>
   revealed_and_unwatched ''fade-in-up'' 30
     (new_reveal_run [home_section, about_section] [3, 2] scroll_back
        (fadeInObserver card_30_enters cards_page)) \<and>
   revealed_and_unwatched ''revealed'' 30
     (topnav_reveal_run [home_section, about_section] [3, 2] 70 scroll_back
        (revealObserver card_30_enters cards_page))"
proof -
  have en: "\<lparr>target = 30, isIntersecting = True\<rparr> \<in> set card_30_enters"
    by (simp add: card_30_enters_def)
  have before: "30 \<in> observed cards_page" "\<not> classList_contains 30 ''fade-in-up'' cards_page"
    by (simp_all add: cards_page_def nav_page_def dom.defs reveal_page.defs classList_contains_def)
  show ?thesis
    using reveal_is_permanent [of 30 card_30_enters cards_page "[home_section, about_section]"
        "[3, 2]" scroll_back 70] en before
    by simp
qed


section \<open>Properties of the contact form\<close>

lemma then_append_Inr: "then_append p r = Inr x \<longleftrightarrow> (\<exists>y. r = Inr y \<and> x = p @ y)"
  by (auto simp: then_append_def split: sum.splits)

lemma encodeURIComponent_append:
  "encodeURIComponent a = Inr a' \<Longrightarrow> encodeURIComponent b = Inr b' \<Longrightarrow>
   encodeURIComponent (a @ b) = Inr (a' @ b')"
proof (induction a arbitrary: a' rule: encodeURIComponent.induct)
  case 1
  then show ?case by simp
next
  case (2 c cs)
  show ?case
  proof (cases "uriUnreserved c")
    case True
    then obtain y where y: "encodeURIComponent cs = Inr y" "a' = [c] @ y"
      using "2.prems"(1) by (auto simp: then_append_Inr)
    have "encodeURIComponent (cs @ b) = Inr (y @ b')"
      using "2.IH"(1) [OF True y(1) "2.prems"(2)] .
    then show ?thesis using True y by (simp add: then_append_def)
  next
    case unres: False
    show ?thesis
    proof (cases "is_high_surrogate c")
      case True
      then obtain d ds y where d: "cs = d # ds" "is_low_surrogate d"
        "encodeURIComponent ds = Inr y" "a' = percent (utf8 (code_point c d)) @ y"
        using "2.prems"(1) unres
        by (auto simp: then_append_Inr split: list.splits if_splits)
      have "encodeURIComponent (ds @ b) = Inr (y @ b')"
        using "2.IH"(2) [OF unres True d(1) d(2) d(3) "2.prems"(2)] .
      then show ?thesis using unres True d by (simp add: then_append_def)
    next
      case False
      then obtain y where y: "\<not> is_low_surrogate c" "encodeURIComponent cs = Inr y"
        "a' = percent (utf8 (unat c)) @ y"
        using "2.prems"(1) unres by (auto simp: then_append_Inr split: if_splits)
      have "encodeURIComponent (cs @ b) = Inr (y @ b')"
        using "2.IH"(3) [OF unres False y(1) y(2) "2.prems"(2)] .
      then show ?thesis using unres False y by (simp add: then_append_def)
    qed
  qed
qed



lemma unreserved_not_surrogate:
  "uriUnreserved c \<Longrightarrow> \<not> is_high_surrogate c \<and> \<not> is_low_surrogate c"
  unfolding uriUnreserved_def is_high_surrogate_def is_low_surrogate_def word_le_nat_alt
  by auto

lemma then_append_ex: "(\<exists>r. then_append p x = Inr r) \<longleftrightarrow> (\<exists>r. x = Inr r)"
  by (cases x) (simp_all add: then_append_def)

lemma encodeURIComponent_well_formed:
  "(\<exists>r. encodeURIComponent s = Inr r) \<longleftrightarrow> well_formed s"
proof (induction s rule: encodeURIComponent.induct)
  case 1
  show ?case by simp
next
  case (2 c cs)
  show ?case
  proof (cases "uriUnreserved c")
    case True
    then show ?thesis
      using "2.IH"(1) [OF True] unreserved_not_surrogate [OF True]
      by (simp add: then_append_ex)
  next
    case unres: False
    show ?thesis
    proof (cases "is_high_surrogate c")
      case True
      show ?thesis
      proof (cases cs)
        case Nil
        then show ?thesis using unres True by simp
      next
        case (Cons d ds)
        show ?thesis
        proof (cases "is_low_surrogate d")
          case low: True
          then show ?thesis
            using "2.IH"(2) [OF unres True Cons low] unres True Cons
            by (simp add: then_append_ex)
        next
          case False
          then show ?thesis using unres True Cons by simp
        qed
      qed
    next
      case nohigh: False
      show ?thesis
      proof (cases "is_low_surrogate c")
        case True
        then show ?thesis using unres nohigh by simp
      next
        case False
        then show ?thesis
          using "2.IH"(3) [OF unres nohigh False] unres nohigh
          by (simp add: then_append_ex)
      qed
    qed
  qed
qed


lemma regex_Once:
  "regex_test (Once p # r) s \<longleftrightarrow> (\<exists>c cs. s = c # cs \<and> p c \<and> regex_test r cs)"
  by (cases s) simp_all

lemma regex_Many:
  "regex_test (Many p # r) s \<longleftrightarrow>
     (\<exists>a b. s = a @ b \<and> a \<noteq> [] \<and> (\<forall>c\<in>set a. p c) \<and> regex_test r b)"
proof (induction s)
  case Nil
  show ?case by simp
next
  case (Cons c cs)
  show ?case
  proof
    assume "regex_test (Many p # r) (c # cs)"
    then have pc: "p c" and rest: "regex_test r cs \<or> regex_test (Many p # r) cs" by simp_all
    from rest show "\<exists>a b. c # cs = a @ b \<and> a \<noteq> [] \<and> (\<forall>c\<in>set a. p c) \<and> regex_test r b"
    proof
      assume "regex_test r cs"
      then have "c # cs = [c] @ cs \<and> [c] \<noteq> [] \<and> (\<forall>x\<in>set [c]. p x) \<and> regex_test r cs"
        using pc by simp
      then show ?thesis by blast
    next
      assume "regex_test (Many p # r) cs"
      then obtain a b where ab: "cs = a @ b" "a \<noteq> []" "\<forall>c\<in>set a. p c" "regex_test r b"
        using Cons.IH by blast
      then have "c # cs = (c # a) @ b \<and> c # a \<noteq> [] \<and> (\<forall>x\<in>set (c # a). p x) \<and> regex_test r b"
        using pc by simp
      then show ?thesis by blast
    qed
  next
    assume "\<exists>a b. c # cs = a @ b \<and> a \<noteq> [] \<and> (\<forall>c\<in>set a. p c) \<and> regex_test r b"
    then obtain a b where ab: "c # cs = a @ b" "a \<noteq> []" "\<forall>c\<in>set a. p c" "regex_test r b"
      by blast
    then obtain a' where a': "a = c # a'" "cs = a' @ b" by (cases a) auto
    show "regex_test (Many p # r) (c # cs)"
    proof (cases "a' = []")
      case True
      then show ?thesis using ab a' by simp
    next
      case False
      then have "regex_test (Many p # r) cs" using Cons.IH ab a' by auto
      then show ?thesis using ab a' by simp
    qed
  qed
qed

text \<open>The shape that \<open>emailPattern\<close> accepts: a local part, \<^verbatim>\<open>@\<close>, a domain, a dot and a
  last part, the three parts non-empty and free of white space and \<^verbatim>\<open>@\<close>.\<close>

lemma emailPattern_shape:
  "regex_test emailPattern s \<longleftrightarrow>
     (\<exists>l d t. s = l @ [0x40] @ d @ [0x2E] @ t \<and> l \<noteq> [] \<and> d \<noteq> [] \<and> t \<noteq> [] \<and>
        (\<forall>c\<in>set (l @ d @ t). not_space_or_at c))"
proof -
  have last_part: "regex_test [Many p] x \<longleftrightarrow> x \<noteq> [] \<and> (\<forall>c\<in>set x. p c)" for p x
    by (auto simp: regex_Many)
  show ?thesis
    unfolding emailPattern_def regex_Many regex_Once last_part
    by (auto; blast)
qed


lemmas string_defs = js_def trim_def is_space_def emailPattern_def not_space_or_at_def
  uriUnreserved_def is_high_surrogate_def is_low_surrogate_def utf8_def percent_def
  hex_digit_def then_append_def code_point_def

lemmas form_defs = initContactForm_submit_def contactForm_submit_def validate_def falsy_def
  preventDefault_def showAlert_def reset_def blank_def email_shaped_def same_inputs_def
  rejected_by_dialog_def rejected_by_notice_def trimmed_length_def mailto_prefix_def
  removal_timer_fires_def

lemmas form_pages = jane_page_def bad_email_page_def short_name_page_def half_emoji_page_def

lemma invalid_is_rejected_by_notice:
  assumes "blank (name_input s) \<or> blank (email_input s) \<or> blank (message_input s) \<or>
     \<not> email_shaped (email_input s)"
  shows "rejected_by_notice s (initContactForm_submit s)"
proof -
  have "\<not> fst (validate (map_option trim (name_input s)) (map_option trim (email_input s))
      (map_option trim (message_input s)))"
    using assms
    by (auto simp: validate_def blank_def email_shaped_def falsy_def Let_def split: option.splits)
  then show ?thesis
    by (simp add: initContactForm_submit_def rejected_by_notice_def same_inputs_def
        showAlert_def preventDefault_def Let_def)
qed

lemma invalid_is_rejected_by_dialog:
  assumes "blank (name_input s) \<or> blank (email_input s) \<or> blank (message_input s) \<or>
     \<not> email_shaped (email_input s)"
    and "name_input s \<noteq> None" "email_input s \<noteq> None" "message_input s \<noteq> None"
  shows "rejected_by_dialog s (contactForm_submit s)"
  using assms
  by (auto simp: contactForm_submit_def rejected_by_dialog_def same_inputs_def blank_def
      email_shaped_def falsy_def preventDefault_def Let_def)

lemma valid_is_accepted_new:
  assumes "\<not> blank (name_input t)" "\<not> blank (email_input t)" "\<not> blank (message_input t)"
    "email_shaped (email_input t)"
  shows "contactForm_submit t = Inr t"
  using assms
  by (auto simp: contactForm_submit_def blank_def email_shaped_def falsy_def Let_def
      split: option.splits)

lemma valid_rejected_iff_short:
  assumes "\<not> blank (name_input t)" "\<not> blank (email_input t)" "\<not> blank (message_input t)"
    "email_shaped (email_input t)"
  shows "rejected_by_notice t (initContactForm_submit t) \<longleftrightarrow>
     trimmed_length (name_input t) < 2 \<or> trimmed_length (message_input t) < 10"
proof -
  obtain n e m where inp: "name_input t = Some n" "email_input t = Some e" "message_input t = Some m"
    using assms(1-3) by (auto simp: blank_def falsy_def split: option.splits)
  have v: "fst (validate (Some (trim n)) (Some (trim e)) (Some (trim m))) \<longleftrightarrow>
      \<not> (length (trim n) < 2 \<or> length (trim m) < 10)"
    using assms inp by (auto simp: validate_def blank_def email_shaped_def falsy_def Let_def)
  show ?thesis
  proof (cases "length (trim n) < 2 \<or> length (trim m) < 10")
    case True
    then have "\<not> fst (validate (Some (trim n)) (Some (trim e)) (Some (trim m)))" using v by simp
    then have "rejected_by_notice t (initContactForm_submit t)"
      using inp by (simp add: initContactForm_submit_def rejected_by_notice_def same_inputs_def
          showAlert_def preventDefault_def Let_def)
    then show ?thesis using True inp by (simp add: trimmed_length_def)
  next
    case False
    then have ok: "fst (validate (Some (trim n)) (Some (trim e)) (Some (trim m)))" using v by simp
    have "\<not> rejected_by_notice t (initContactForm_submit t)"
      using inp ok
      by (auto simp: initContactForm_submit_def rejected_by_notice_def showAlert_def reset_def
          preventDefault_def Let_def split: sum.splits)
    then show ?thesis using False inp by (simp add: trimmed_length_def)
  qed
qed

text \<open>
  C4, as the code has it. A submission in which the name, the email or the message is
  blank, or the trimmed email does not have the shape of the pattern, is rejected by both
  scripts: the default action is prevented, an error is shown, the address and the three
  inputs stay as they were. Conversely, for a submission with three non-blank fields and
  a well-shaped email, \<^verbatim>\<open>script_new.js\<close> does nothing, so the browser submits the form, and
  \<^verbatim>\<open>script_topnav_backup.js\<close> rejects it exactly when the trimmed name has fewer than 2
  code units or the trimmed message fewer than 10.
\<close>

theorem form_validation:
  "((blank (name_input s) \<or> blank (email_input s) \<or> blank (message_input s) \<or>
      \<not> email_shaped (email_input s)) \<longrightarrow>
     rejected_by_notice s (initContactForm_submit s) \<and>
     (name_input s \<noteq> None \<and> email_input s \<noteq> None \<and> message_input s \<noteq> None \<longrightarrow>
        rejected_by_dialog s (contactForm_submit s))) \<and>
   (\<not> blank (name_input t) \<and> \<not> blank (email_input t) \<and> \<not> blank (message_input t) \<and>
      email_shaped (email_input t) \<longrightarrow>
     contactForm_submit t = Inr t \<and>
     (rejected_by_notice t (initContactForm_submit t) \<longleftrightarrow>
        trimmed_length (name_input t) < 2 \<or> trimmed_length (message_input t) < 10))"
  using invalid_is_rejected_by_notice [of s] invalid_is_rejected_by_dialog [of s]
    valid_is_accepted_new [of t] valid_rejected_iff_short [of t]
  by blast

theorem form_validation_witness:
  "\<not> email_shaped (email_input bad_email_page) \<and>
   rejected_by_notice bad_email_page (initContactForm_submit bad_email_page) \<and>
   rejected_by_dialog bad_email_page (contactForm_submit bad_email_page) \<and>
   email_shaped (email_input jane_page) \<and>
   contactForm_submit jane_page = Inr jane_page \<and>
   \<not> rejected_by_notice jane_page (initContactForm_submit jane_page)"
proof -
  have bad: "\<not> email_shaped (email_input bad_email_page)"
    "name_input bad_email_page \<noteq> None" "email_input bad_email_page \<noteq> None"
    "message_input bad_email_page \<noteq> None"
    by (simp_all add: form_pages email_shaped_def string_defs)
  have good: "\<not> blank (name_input jane_page)" "\<not> blank (email_input jane_page)"
    "\<not> blank (message_input jane_page)" "email_shaped (email_input jane_page)"
    "\<not> trimmed_length (name_input jane_page) < 2"
    "\<not> trimmed_length (message_input jane_page) < 10"
    by (simp_all add: form_pages blank_def falsy_def email_shaped_def trimmed_length_def
        string_defs)
  show ?thesis
    using form_validation [of bad_email_page jane_page] bad good by simp
qed

text \<open>
  C4, as stated, fails: the name \<^verbatim>\<open>J\<close> with a well-shaped email and a long message is
  rejected by \<^verbatim>\<open>script_topnav_backup.js\<close>.
\<close>

theorem one_letter_name_is_rejected:
  "\<not> blank (name_input short_name_page) \<and> \<not> blank (email_input short_name_page) \<and>
   \<not> blank (message_input short_name_page) \<and> email_shaped (email_input short_name_page) \<and>
   initContactForm_submit short_name_page =
     Inr (showAlert ''Please enter a valid name (at least 2 characters).'' ''error''
            (preventDefault short_name_page))"
  by (simp add: form_pages form_defs string_defs Let_def)

lemma enc_subject_label:
  "encodeURIComponent (js ''Portfolio Contact from '') = Inr (js ''Portfolio%20Contact%20from%20'')"
  by (simp add: string_defs)

lemma enc_name_label: "encodeURIComponent (js ''Name: '') = Inr (js ''Name%3A%20'')"
  by (simp add: string_defs)

lemma enc_email_label:
  "encodeURIComponent (js ''\<newline>Email: '') = Inr (js ''%0AEmail%3A%20'')"
  by (simp add: string_defs)

lemma enc_message_label:
  "encodeURIComponent (js ''\<newline>\<newline>Message:\<newline>'') = Inr (js ''%0A%0AMessage%3A%0A'')"
  by (simp add: string_defs)

text \<open>
  C5, as the code has it. When the validation passes and none of the three trimmed values
  has an unpaired surrogate, the listener assigns to \<^verbatim>\<open>window.location.href\<close> the mailto
  link whose subject ends with the percent-encoded name and whose body holds the
  percent-encoded name, email and message after their labels; it shows the success
  notice, whose timer removes it again, and resets the three controls to their default
  values.
\<close>

theorem valid_submission_opens_mail_link:
  assumes inputs: "name_input s = Some n" "email_input s = Some e" "message_input s = Some m"
    and valid: "fst (validate (Some (trim n)) (Some (trim e)) (Some (trim m)))"
    and wf: "well_formed (trim n)" "well_formed (trim e)" "well_formed (trim m)"
  shows "\<exists>n' e' m' s'.
     encodeURIComponent (trim n) = Inr n' \<and> encodeURIComponent (trim e) = Inr e' \<and>
     encodeURIComponent (trim m) = Inr m' \<and>
     initContactForm_submit s = Inr s' \<and>
     location_href s' =
       Some (js ''mailto:mueezmejbah284@gmail.com?subject=Portfolio%20Contact%20from%20'' @ n'
             @ js ''&body=Name%3A%20'' @ n' @ js ''%0AEmail%3A%20'' @ e'
             @ js ''%0A%0AMessage%3A%0A'' @ m') \<and>
     custom_alert s' =
       Some (''success'', ''Thank you for your message! Your email client should open shortly.'',
             alerts_created s) \<and>
     removal_timers s' = removal_timers s @ [alerts_created s] \<and>
     (removal_timers s = [] \<longrightarrow> custom_alert (removal_timer_fires s') = None) \<and>
     name_input s' = Some (name_default s) \<and> email_input s' = Some (email_default s) \<and>
     message_input s' = Some (message_default s)"
proof -
  obtain n' e' m' where enc: "encodeURIComponent (trim n) = Inr n'"
    "encodeURIComponent (trim e) = Inr e'" "encodeURIComponent (trim m) = Inr m'"
    using wf encodeURIComponent_well_formed by blast
  have subject: "encodeURIComponent (js ''Portfolio Contact from '' @ trim n) =
      Inr (js ''Portfolio%20Contact%20from%20'' @ n')"
    by (rule encodeURIComponent_append [OF enc_subject_label enc(1)])
  have b1: "encodeURIComponent (js ''\<newline>\<newline>Message:\<newline>'' @ trim m) =
      Inr (js ''%0A%0AMessage%3A%0A'' @ m')"
    by (rule encodeURIComponent_append [OF enc_message_label enc(3)])
  have b2: "encodeURIComponent (trim e @ js ''\<newline>\<newline>Message:\<newline>'' @ trim m) =
      Inr (e' @ js ''%0A%0AMessage%3A%0A'' @ m')"
    by (rule encodeURIComponent_append [OF enc(2) b1])
  have b3: "encodeURIComponent
      (js ''\<newline>Email: '' @ trim e @ js ''\<newline>\<newline>Message:\<newline>'' @ trim m) =
      Inr (js ''%0AEmail%3A%20'' @ e' @ js ''%0A%0AMessage%3A%0A'' @ m')"
    by (rule encodeURIComponent_append [OF enc_email_label b2])
  have b4: "encodeURIComponent
      (trim n @ js ''\<newline>Email: '' @ trim e @ js ''\<newline>\<newline>Message:\<newline>'' @ trim m) =
      Inr (n' @ js ''%0AEmail%3A%20'' @ e' @ js ''%0A%0AMessage%3A%0A'' @ m')"
    by (rule encodeURIComponent_append [OF enc(1) b3])
  have body: "encodeURIComponent
      (js ''Name: '' @ trim n @ js ''\<newline>Email: '' @ trim e
         @ js ''\<newline>\<newline>Message:\<newline>'' @ trim m) =
      Inr (js ''Name%3A%20'' @ n' @ js ''%0AEmail%3A%20'' @ e' @ js ''%0A%0AMessage%3A%0A'' @ m')"
    by (rule encodeURIComponent_append [OF enc_name_label b4])
  have pre: "mailto_prefix @ js ''Portfolio%20Contact%20from%20'' =
      js ''mailto:mueezmejbah284@gmail.com?subject=Portfolio%20Contact%20from%20''"
    by (simp add: mailto_prefix_def js_def)
  let ?s' = "reset (showAlert ''Thank you for your message! Your email client should open shortly.''
      ''success'' ((preventDefault s)\<lparr>location_href :=
         Some (mailto_prefix @ (js ''Portfolio%20Contact%20from%20'' @ n') @ js ''&body='' @
           js ''Name%3A%20'' @ n' @ js ''%0AEmail%3A%20'' @ e' @ js ''%0A%0AMessage%3A%0A'' @ m')\<rparr>))"
  have run: "initContactForm_submit s = Inr ?s'"
    using inputs valid subject body
    by (simp add: initContactForm_submit_def preventDefault_def Let_def)
  have link: "location_href ?s' =
       Some (js ''mailto:mueezmejbah284@gmail.com?subject=Portfolio%20Contact%20from%20'' @ n'
             @ js ''&body=Name%3A%20'' @ n' @ js ''%0AEmail%3A%20'' @ e'
             @ js ''%0A%0AMessage%3A%0A'' @ m')"
    using pre by (simp add: reset_def showAlert_def js_def)
  have rest: "custom_alert ?s' =
       Some (''success'', ''Thank you for your message! Your email client should open shortly.'',
             alerts_created s)"
    "removal_timers ?s' = removal_timers s @ [alerts_created s]"
    "removal_timers s = [] \<longrightarrow> custom_alert (removal_timer_fires ?s') = None"
    "name_input ?s' = Some (name_default s)" "email_input ?s' = Some (email_default s)"
    "message_input ?s' = Some (message_default s)"
    using inputs
    by (simp_all add: reset_def showAlert_def preventDefault_def removal_timer_fires_def)
  show ?thesis using enc run link rest by blast
qed


theorem valid_submission_opens_mail_link_witness:
  "fst (validate (Some (trim (js ''Jane''))) (Some (trim (js ''jane@example.com'')))
         (Some (trim (js ''Hello there, loved your work!'')))) \<and>
   (\<exists>s'. initContactForm_submit jane_page = Inr s' \<and>
      location_href s' =
        Some (js (''mailto:mueezmejbah284@gmail.com?subject=Portfolio%20Contact%20from%20Jane'' @
                  ''&body=Name%3A%20Jane%0AEmail%3A%20jane%40example.com'' @
                  ''%0A%0AMessage%3A%0AHello%20there%2C%20loved%20your%20work!'')) \<and>
      custom_alert s' =
        Some (''success'', ''Thank you for your message! Your email client should open shortly.'', 0) \<and>
      custom_alert (removal_timer_fires s') = None \<and>
      name_input s' = Some [] \<and> email_input s' = Some [] \<and> message_input s' = Some [])"
proof -
  have inputs: "name_input jane_page = Some (js ''Jane'')"
    "email_input jane_page = Some (js ''jane@example.com'')"
    "message_input jane_page = Some (js ''Hello there, loved your work!'')"
    by (simp_all add: jane_page_def)
  have valid: "fst (validate (Some (trim (js ''Jane''))) (Some (trim (js ''jane@example.com'')))
         (Some (trim (js ''Hello there, loved your work!''))))"
    by (simp add: validate_def falsy_def string_defs Let_def)
  have wf: "well_formed (trim (js ''Jane''))" "well_formed (trim (js ''jane@example.com''))"
    "well_formed (trim (js ''Hello there, loved your work!''))"
    by (simp_all add: string_defs)
  have enc: "encodeURIComponent (trim (js ''Jane'')) = Inr (js ''Jane'')"
    "encodeURIComponent (trim (js ''jane@example.com'')) = Inr (js ''jane%40example.com'')"
    "encodeURIComponent (trim (js ''Hello there, loved your work!'')) =
       Inr (js ''Hello%20there%2C%20loved%20your%20work!'')"
    by (simp_all add: string_defs)
  have page: "alerts_created jane_page = 0" "removal_timers jane_page = []"
    "name_default jane_page = []" "email_default jane_page = []"
    "message_default jane_page = []"
    by (simp_all add: jane_page_def)
  obtain n' e' m' s' where r:
    "encodeURIComponent (trim (js ''Jane'')) = Inr n'"
    "encodeURIComponent (trim (js ''jane@example.com'')) = Inr e'"
    "encodeURIComponent (trim (js ''Hello there, loved your work!'')) = Inr m'"
    "initContactForm_submit jane_page = Inr s'"
    "location_href s' =
       Some (js ''mailto:mueezmejbah284@gmail.com?subject=Portfolio%20Contact%20from%20'' @ n'
             @ js ''&body=Name%3A%20'' @ n' @ js ''%0AEmail%3A%20'' @ e'
             @ js ''%0A%0AMessage%3A%0A'' @ m')"
    "custom_alert s' =
       Some (''success'', ''Thank you for your message! Your email client should open shortly.'',
             alerts_created jane_page)"
    "removal_timers jane_page = [] \<longrightarrow> custom_alert (removal_timer_fires s') = None"
    "name_input s' = Some (name_default jane_page)"
    "email_input s' = Some (email_default jane_page)"
    "message_input s' = Some (message_default jane_page)"
    using valid_submission_opens_mail_link [OF inputs valid wf] by blast
  have vals: "n' = js ''Jane''" "e' = js ''jane%40example.com''"
    "m' = js ''Hello%20there%2C%20loved%20your%20work!''"
    using r(1-3) enc by simp_all
  have "location_href s' =
        Some (js (''mailto:mueezmejbah284@gmail.com?subject=Portfolio%20Contact%20from%20Jane'' @
                  ''&body=Name%3A%20Jane%0AEmail%3A%20jane%40example.com'' @
                  ''%0A%0AMessage%3A%0AHello%20there%2C%20loved%20your%20work!''))"
    using r(5) vals by (simp add: js_def)
  then show ?thesis using valid r(4,6-10) page by auto
qed


text \<open>
  C5, as stated, fails: a name that ends in half of a surrogate pair passes the
  validation, and \<^verbatim>\<open>encodeURIComponent\<close> throws before any link is made.
\<close>

theorem unpaired_surrogate_throws:
  "fst (validate (map_option trim (name_input half_emoji_page))
         (map_option trim (email_input half_emoji_page))
         (map_option trim (message_input half_emoji_page))) \<and>
   initContactForm_submit half_emoji_page = Inl URIError"
  by (simp add: form_pages form_defs string_defs Let_def)


section \<open>Properties of the certificate dialog\<close>

lemmas certificate_defs = openCertificateModal_def viewCertificate_click_def get_property_def
  certificateImages_def certificates_def object_prototype_def truthy_def to_string_def
  toUpperCase_def upper_case_def certificates_closed_def empty_dom_def dom.defs certificate_page.defs

text \<open>An identifier that is neither in the table nor the name of an inherited property
  changes nothing.\<close>

lemma unknown_certificate_changes_nothing:
  assumes "map_of certificateImages cid = None" "map_of object_prototype cid = None"
  shows "openCertificateModal modal (Some cid) s = Inr s"
    and "viewCertificate_click modal (Some cid) s = s"
  using assms
  by (simp_all add: openCertificateModal_def viewCertificate_click_def get_property_def
      truthy_def to_string_def certificates_def certificateImages_def)

lemma missing_attribute_changes_nothing:
  "openCertificateModal modal None s = Inr s" "viewCertificate_click modal None s = s"
  by (simp_all add: certificate_defs)

text \<open>
  C10 says that an identifier that is not in the certificate table changes nothing. The
  identifier \<^verbatim>\<open>constructor\<close> is not in the table, yet the property read finds the inherited
  \<^verbatim>\<open>Object\<close> function, which is truthy: both scripts assign it to the image, set the alt
  text, mark the dialog active and lock the body's scrolling.
\<close>

theorem inherited_name_opens_certificate_modal:
  "map_of certificateImages ''constructor'' = None \<and>
   \<not> classList_contains 9 ''active'' certificates_closed \<and>
   openCertificateModal 9 (Some ''constructor'') certificates_closed =
     Inr (certificates_closed\<lparr>classList := (\<lambda>_. {})(9 := {''active''}),
            body_overflow := ''hidden'', image_src := Fn ''Object'',
            image_alt := ''CONSTRUCTOR''\<rparr>) \<and>
   viewCertificate_click 9 (Some ''constructor'') certificates_closed =
     certificates_closed\<lparr>classList := (\<lambda>_. {})(9 := {''active''}),
        attributes := (\<lambda>_. Map.empty)(9 := [''aria-hidden'' \<mapsto> ''false'']),
        body_overflow := ''hidden'', image_src := Fn ''Object'',
        image_alt := ''constructor certificate''\<rparr>"
  by (simp add: certificate_defs dom_ops Let_def)

end
